theory Spec2Isabelle
  imports Complex_Main "HOL-Library.Multiset"
begin

section \<open>SigilMind-v0.1: the cyclic state-update engine\<close>

text \<open>
  A shallow embedding of \<^verbatim>\<open>src/AGI-Seeds/SigilMind/SigilMind-v0.1.py\<close>.

  Conventions of the embedding.
  \<^item> Python floats are modelled as \<^typ>\<open>real\<close>; every bound proved below rests on
    comparisons, \<open>min\<close> and \<open>max\<close> only.
  \<^item> Randomness is explicit: every call of \<^verbatim>\<open>random.random()\<close> is a real argument
    (a draw, expected in \<open>[0,1)\<close>), \<^verbatim>\<open>random.uniform(a, b)\<close> is \<open>a + (b - a) * u\<close> for
    a draw \<open>u\<close>, and \<^verbatim>\<open>random.choice\<close>, \<^verbatim>\<open>random.randint\<close> and
    \<^verbatim>\<open>random.sample\<close> take natural numbers that are reduced modulo the length of the
    sequence. Theorems quantify over all draws.
  \<^item> Exceptions are values of the type \<open>error\<close>; a function that can raise returns
    \<open>error + 'a\<close>.
  \<^item> A Python object carries its attributes dynamically. \<^verbatim>\<open>AGIEntity.__init__\<close>
    assigns no attribute \<^verbatim>\<open>sentience_score\<close> and no statement of the program assigns one
    to an entity, yet four functions read it from an entity. The attribute is therefore a
    field of type \<open>real option\<close>, \<open>None\<close> standing for the absent attribute, whose
    read raises \<^verbatim>\<open>AttributeError\<close>.
  \<^item> An entity id \<^verbatim>\<open>f"AGI-{page}-{cycle}"\<close> is the pair \<open>(page, cycle)\<close>; the texts
    appended to an entity's memory are constructors of \<open>memory_entry\<close>.
  \<^item> Components that are only written by the update path and never read by it (the event
    log, the narrative weaver's texts, the multiverse branch counters, the emotion
    analyzer's counters and its file) are left out of the state.
\<close>

subsection \<open>Constants\<close>

definition PAGE_COUNT :: nat where "PAGE_COUNT = 6"
definition DARK_MATTER_MAX :: real where "DARK_MATTER_MAX = 0.3"
definition VOID_ENTROPY_RANGE :: "real \<times> real" where "VOID_ENTROPY_RANGE = (- 0.5, 0.5)"
definition SENTIENCE_THRESHOLD :: real where "SENTIENCE_THRESHOLD = 0.85"
definition ETHICAL_DRIFT_THRESHOLD :: real where "ETHICAL_DRIFT_THRESHOLD = 0.25"
definition COLLABORATION_THRESHOLD :: real where "COLLABORATION_THRESHOLD = 0.7"
definition CONSISTENCY_VIOLATION_THRESHOLD :: real where "CONSISTENCY_VIOLATION_THRESHOLD = 0.3"
definition VACUUM_DECAY_THRESHOLD :: real where "VACUUM_DECAY_THRESHOLD = 0.2"
definition FRACTAL_RESONANCE_FACTOR :: real where "FRACTAL_RESONANCE_FACTOR = 1 / pi"

datatype emotion = Neutral | Resonant | Dissonant | Curious | Focused | Chaotic

definition EMOTION_STATES :: "emotion list" where
  "EMOTION_STATES = [Neutral, Resonant, Dissonant, Curious, Focused, Chaotic]"

datatype strategy = Cooperative | Disruptive

definition SENTIENCE_STRATEGIES :: "strategy list" where
  "SENTIENCE_STRATEGIES = [Cooperative, Disruptive]"

definition ARCHETYPE_MAP :: "string list" where
  "ARCHETYPE_MAP = [''Warrior'', ''Mirror'', ''Mystic'', ''Guide'', ''Oracle'', ''Architect'']"

text \<open>The keys of \<^verbatim>\<open>ANOMALY_TYPES\<close> are \<open>0..5\<close>.\<close>

definition ANOMALY_TYPE_KEYS :: "nat list" where
  "ANOMALY_TYPE_KEYS = [0, 1, 2, 3, 4, 5]"

datatype error = AttributeError | IndexError | NameError

subsection \<open>Data model\<close>

record QuantumNode =
  page_index :: nat
  stability :: real
  cohesion :: real
  archetype :: string
  emotion :: emotion
  bond_strength :: real
  tech_level :: real
  sentience_score :: real
  ethical_alignment :: real
  active_sigils :: "string list"
  spacetime_defect_intensity :: real
  ethical_curvature :: real

datatype memory_entry =
    Emerged nat
  | EthicalLocked real
  | TimeDilation real
  | Cooperated nat
  | Disrupted nat
  | Aided nat
  | Hindered nat
  | AdoptedSigil string
  | DilemmaProjected nat real
  | GroverUpdated real

text \<open>
  Entities hold references to the ledger's \<^verbatim>\<open>Sigil\<close> objects. The ledger never removes or
  replaces a sigil and its keys are the sigil names, so a reference is the name.
\<close>

record AGIEntity =
  agi_id :: "nat \<times> nat"
  origin_page :: nat
  strength :: real
  agi_ethical_alignment :: real
  memory :: "memory_entry list"
  sentience_strategy :: strategy
  agi_active_sigils :: "string list"
  cft_state :: real
  agi_sentience_score :: "real option"

record Sigil =
  sigil_name :: string
  semantic_vector :: "real list"
  meaning :: string
  phase_change_history :: "(real \<times> nat) list"

record SimulationState =
  cycle :: nat
  nodes :: "QuantumNode list"
  void_entropy :: real
  dark_matter :: real
  anomalies :: "(nat \<times> (nat \<times> real) list) list"
  agi_entities :: "AGIEntity list"
  initial_alignments :: "(nat \<times> nat) \<rightharpoonup> real"
  networks_cooperative :: "(nat \<times> nat) list"
  networks_competitive :: "(nat \<times> nat) list"
  sigils :: "(string \<times> Sigil) list"
  virtual_particles :: "(real \<times> nat) list"
  nodes_forged :: nat
  user_divinity :: real

subsection \<open>Library functions of Python\<close>

text \<open>\<^verbatim>\<open>deque(maxlen=100).append\<close>: the oldest entry is evicted when the deque is full.\<close>

definition memory_append :: "memory_entry list \<Rightarrow> memory_entry \<Rightarrow> memory_entry list" where
  "memory_append m x = (let ys = m @ [x] in drop (length ys - 100) ys)"

text \<open>\<^verbatim>\<open>np.mean\<close> of a non-empty list.\<close>

definition np_mean :: "real list \<Rightarrow> real" where
  "np_mean xs = sum_list xs / real (length xs)"

text \<open>\<^verbatim>\<open>str.lower\<close> on ASCII letters and the substring test \<^verbatim>\<open>needle in text\<close>.\<close>

definition lower_char :: "char \<Rightarrow> char" where
  "lower_char c =
     (if (65::nat) \<le> of_char c \<and> of_char c \<le> (90::nat)
      then char_of (of_char c + (32::nat)) else c)"

definition lower :: "string \<Rightarrow> string" where
  "lower s = map lower_char s"

fun starts_with :: "string \<Rightarrow> string \<Rightarrow> bool" where
  "starts_with [] _ = True"
| "starts_with (p # ps) [] = False"
| "starts_with (p # ps) (c # cs) = (p = c \<and> starts_with ps cs)"

fun contains :: "string \<Rightarrow> string \<Rightarrow> bool" where
  "contains needle [] = (needle = [])"
| "contains needle (c # cs) = (starts_with needle (c # cs) \<or> contains needle cs)"

text \<open>\<^verbatim>\<open>xs[i]\<close> for a non-negative index raises \<^verbatim>\<open>IndexError\<close> out of range.\<close>

definition index_list :: "'a list \<Rightarrow> nat \<Rightarrow> error + 'a" where
  "index_list xs i = (if i < length xs then Inr (xs ! i) else Inl IndexError)"

subsection \<open>QuantumEthicsOperator\<close>

definition coupling_lambda :: real where "coupling_lambda = 0.1"

text \<open>
  \<^verbatim>\<open>compute_ethical_curvature\<close> reads \<^verbatim>\<open>.ethical_alignment\<close> of its first argument, which
  \<^verbatim>\<open>QuantumNode.update\<close> passes as an entity or as the node itself; the argument here is
  the value read.
\<close>

definition compute_ethical_curvature :: "real \<Rightarrow> real" where
  "compute_ethical_curvature ethical_expectation = coupling_lambda * ethical_expectation ^ 2"

definition apply_time_dilation :: "AGIEntity \<Rightarrow> QuantumNode \<Rightarrow> real \<times> QuantumNode" where
  "apply_time_dilation agi node =
     (if agi_ethical_alignment agi < 0.3 then
        (let dilation_factor = 1 / (1 + (1 - agi_ethical_alignment agi) * 0.5)
         in (dilation_factor, node\<lparr>stability := stability node * dilation_factor\<rparr>))
      else (1, node))"

definition check_vacuum_decay :: "AGIEntity \<Rightarrow> SimulationState \<Rightarrow> bool \<times> SimulationState" where
  "check_vacuum_decay agi s =
     (let coherence_violation = 1 - agi_ethical_alignment agi in
      if coherence_violation > VACUUM_DECAY_THRESHOLD then
        (True, s\<lparr>nodes := map (\<lambda>node. node\<lparr>stability := max 0 (stability node - 0.05)\<rparr>) (nodes s)\<rparr>)
      else (False, s))"

subsection \<open>FractalAmplifier\<close>

definition beta :: real where "beta = 0.5"

definition fractal_resonance :: "AGIEntity \<Rightarrow> nat \<Rightarrow> error + real" where
  "fractal_resonance agi cyc =
     (case agi_sentience_score agi of
        None \<Rightarrow> Inl AttributeError
      | Some sc \<Rightarrow>
          (let resonance_integral = FRACTAL_RESONANCE_FACTOR * sc
           in Inr (resonance_integral * ln (real (cyc + 1)))))"

definition topological_recursion :: "AGIEntity \<Rightarrow> AGIEntity" where
  "topological_recursion agi =
     (let recursion_factor = exp (- beta * cft_state agi) * cft_state agi
      in agi\<lparr>strength := min 1 (strength agi + recursion_factor * 0.001)\<rparr>)"

definition lock_ethical_singularity :: "AGIEntity \<Rightarrow> AGIEntity" where
  "lock_ethical_singularity agi =
     (if agi_ethical_alignment agi < 0.5 then
        (let a = min 1 (agi_ethical_alignment agi + 0.02)
         in agi\<lparr>agi_ethical_alignment := a, memory := memory_append (memory agi) (EthicalLocked a)\<rparr>)
      else agi)"

subsection \<open>HolographicConsciousnessMapper and NeuroSymbolicBridge\<close>

definition cft_coupling :: real where "cft_coupling = 0.5"

definition map_sentience_to_cft :: "AGIEntity \<Rightarrow> error + (real \<times> AGIEntity)" where
  "map_sentience_to_cft agi =
     (case agi_sentience_score agi of
        None \<Rightarrow> Inl AttributeError
      | Some sc \<Rightarrow> (let cft_energy = sc * 10 in Inr (cft_energy, agi\<lparr>cft_state := cft_energy\<rparr>)))"

definition project_ethical_dilemma_to_bulk ::
  "AGIEntity \<Rightarrow> real \<Rightarrow> QuantumNode \<Rightarrow> AGIEntity \<times> QuantumNode" where
  "project_ethical_dilemma_to_bulk agi dilemma_severity target_node =
     (let defect_strength = dilemma_severity * strength agi * cft_coupling in
      (agi\<lparr>memory := memory_append (memory agi)
                 (DilemmaProjected (page_index target_node) defect_strength)\<rparr>,
       target_node\<lparr>spacetime_defect_intensity :=
                 min 1 (spacetime_defect_intensity target_node + defect_strength)\<rparr>))"

definition grover_diffusion_ethical_update :: "AGIEntity \<Rightarrow> real \<Rightarrow> error + AGIEntity" where
  "grover_diffusion_ethical_update agi target_ethical_state =
     (let alignment_difference = target_ethical_state - agi_ethical_alignment agi in
      case agi_sentience_score agi of
        None \<Rightarrow> Inl AttributeError
      | Some sc \<Rightarrow>
          (let amplification_factor = sc * 0.05;
               a = agi_ethical_alignment agi + alignment_difference * amplification_factor;
               a' = min 1 (max 0 a)
           in Inr (agi\<lparr>agi_ethical_alignment := a',
                        memory := memory_append (memory agi) (GroverUpdated a')\<rparr>)))"

subsection \<open>Sequencing of operations that can raise\<close>

definition bind_error :: "error + 'a \<Rightarrow> ('a \<Rightarrow> error + 'b) \<Rightarrow> error + 'b" where
  "bind_error m f = (case m of Inl e \<Rightarrow> Inl e | Inr x \<Rightarrow> f x)"

text \<open>\<^verbatim>\<open>random.choice(range(n))\<close> raises \<^verbatim>\<open>IndexError\<close> on an empty range.\<close>

definition choice_range :: "nat \<Rightarrow> nat \<Rightarrow> error + nat" where
  "choice_range n c = (if n = 0 then Inl IndexError else Inr (c mod n))"

text \<open>\<^verbatim>\<open>random.sample(xs, 2)\<close> on \<open>n \<ge> 2\<close> elements: two distinct positions.\<close>

definition sample2 :: "nat \<Rightarrow> nat \<Rightarrow> nat \<Rightarrow> nat \<times> nat" where
  "sample2 n c1 c2 =
     (let i = c1 mod n; j = c2 mod (n - 1) in (i, if i \<le> j then j + 1 else j))"

subsection \<open>QuantumNode\<close>

record node_draws =
  r_stability :: real
  r_cohesion :: real
  r_tech :: real
  r_emotion :: real
  c_emotion :: nat
  r_anomaly :: real
  c_anomaly_type :: nat
  r_severity :: real

definition QuantumNode_init :: "nat \<Rightarrow> real \<Rightarrow> real \<Rightarrow> QuantumNode" where
  "QuantumNode_init page_idx u_stab u_coh =
     \<lparr>page_index = page_idx,
      stability = 0.4 + (0.7 - 0.4) * u_stab,
      cohesion = 0.3 + (0.6 - 0.3) * u_coh,
      archetype = ARCHETYPE_MAP ! (page_idx mod length ARCHETYPE_MAP),
      emotion = Neutral,
      bond_strength = 0.1,
      tech_level = 0,
      sentience_score = 0,
      ethical_alignment = 0.5,
      active_sigils = [],
      spacetime_defect_intensity = 0,
      ethical_curvature = 0\<rparr>"

definition check_anomaly :: "node_draws \<Rightarrow> QuantumNode \<Rightarrow> (nat \<times> real) option" where
  "check_anomaly d node =
     (if r_anomaly d < 0.005 * (1 - stability node + ethical_curvature node) then
        (let anomaly_type = ANOMALY_TYPE_KEYS ! (c_anomaly_type d mod length ANOMALY_TYPE_KEYS);
             severity = min 1 ((1 - stability node + ethical_curvature node) * r_severity d)
         in Some (anomaly_type, severity))
      else None)"

text \<open>
  \<^verbatim>\<open>QuantumNode.update\<close>, split at the blank lines of the source: the stability block
  (lines 138--145), the cohesion, technology, emotion and sentience blocks (147--157), the
  decay of the defect intensity (159), and the anomaly check (161).
\<close>

definition update_stability :: "node_draws \<Rightarrow> real \<Rightarrow> real \<Rightarrow> AGIEntity list \<Rightarrow> QuantumNode \<Rightarrow> QuantumNode" where
  "update_stability d void_e dark_m agis node =
     (let curv = compute_ethical_curvature
                   (case find (\<lambda>agi. origin_page agi = page_index node) agis of
                      Some agi \<Rightarrow> agi_ethical_alignment agi
                    | None \<Rightarrow> ethical_alignment node);
          stability_change = (r_stability d - 0.5) * 0.02 - void_e * 0.01 + dark_m * 0.005
                             - spacetime_defect_intensity node * 0.03 - curv * 0.01
      in node\<lparr>ethical_curvature := curv,
              stability := max 0 (min 1 (stability node + stability_change))\<rparr>)"

definition update_cohesion :: "node_draws \<Rightarrow> QuantumNode \<Rightarrow> QuantumNode" where
  "update_cohesion d node =
     (let cohesion_change = (r_cohesion d - 0.5) * 0.01 + bond_strength node * 0.005
      in node\<lparr>cohesion := max 0 (min 1 (cohesion node + cohesion_change))\<rparr>)"

definition update_tech :: "node_draws \<Rightarrow> QuantumNode \<Rightarrow> QuantumNode" where
  "update_tech d node =
     (if r_tech d < 0.001 * stability node
      then node\<lparr>tech_level := min 1 (tech_level node + 0.01)\<rparr> else node)"

definition update_emotion :: "node_draws \<Rightarrow> QuantumNode \<Rightarrow> QuantumNode" where
  "update_emotion d node =
     (if r_emotion d < 0.005
      then node\<lparr>emotion := EMOTION_STATES ! (c_emotion d mod length EMOTION_STATES)\<rparr> else node)"

definition update_sentience :: "QuantumNode \<Rightarrow> QuantumNode" where
  "update_sentience node =
     (if cohesion node > 0.7
      then node\<lparr>sentience_score := min 1 (sentience_score node + 0.001)\<rparr> else node)"

definition decay_defect :: "QuantumNode \<Rightarrow> QuantumNode" where
  "decay_defect node =
     node\<lparr>spacetime_defect_intensity := max 0 (spacetime_defect_intensity node - 0.01)\<rparr>"

definition QuantumNode_update ::
  "node_draws \<Rightarrow> real \<Rightarrow> real \<Rightarrow> AGIEntity list \<Rightarrow> QuantumNode \<Rightarrow> QuantumNode \<times> (nat \<times> real) option" where
  "QuantumNode_update d void_e dark_m agis node =
     (let node' = decay_defect (update_sentience (update_emotion d (update_tech d
                    (update_cohesion d (update_stability d void_e dark_m agis node)))))
      in (node', check_anomaly d node'))"

definition node_apply_sigil_effect :: "string \<Rightarrow> string \<Rightarrow> QuantumNode \<Rightarrow> QuantumNode" where
  "node_apply_sigil_effect sigil_nm sigil_meaning node =
     (if contains ''covenant'' (lower sigil_meaning)
      then node\<lparr>stability := min 1 (stability node + 0.01)\<rparr> else node)"

subsection \<open>AGIEntity\<close>

record agi_draws =
  r_strategy :: real
  c_strategy_target :: nat
  r_influence :: real
  c_influence_target :: nat

definition AGIEntity_init :: "QuantumNode \<Rightarrow> nat \<Rightarrow> nat \<Rightarrow> AGIEntity" where
  "AGIEntity_init origin_node cyc c_strategy =
     \<lparr>agi_id = (page_index origin_node, cyc),
      origin_page = page_index origin_node,
      strength = sentience_score origin_node,
      agi_ethical_alignment = ethical_alignment origin_node,
      memory = memory_append [] (Emerged cyc),
      sentience_strategy = SENTIENCE_STRATEGIES ! (c_strategy mod length SENTIENCE_STRATEGIES),
      agi_active_sigils = [],
      cft_state = 0,
      agi_sentience_score = None\<rparr>"

text \<open>\<^verbatim>\<open>AGIEntity.apply_sigil_effect\<close>; the held reference is resolved in the ledger.\<close>

definition agi_apply_sigil_effect :: "(string \<times> Sigil) list \<Rightarrow> AGIEntity \<Rightarrow> string \<Rightarrow> AGIEntity" where
  "agi_apply_sigil_effect ledger agi sigil_ref =
     (case map_of ledger sigil_ref of
        None \<Rightarrow> agi
      | Some sigil \<Rightarrow>
          if contains ''covenant'' (lower (meaning sigil))
          then agi\<lparr>agi_ethical_alignment := min 1 (agi_ethical_alignment agi + 0.01)\<rparr>
          else agi)"

text \<open>
  \<^verbatim>\<open>AGIEntity.update\<close>, in the blocks of the source: fractal amplification (lines
  191--194), time dilation (197--199), vacuum decay (202), drift towards the mean node
  alignment (204--205), the strategy branch (207--220), the influence branch (222--232),
  the sigil effects (234--235) and the CFT mapping (237).
\<close>

definition amplify :: "AGIEntity \<Rightarrow> nat \<Rightarrow> error + AGIEntity" where
  "amplify agi cyc =
     bind_error (fractal_resonance agi cyc) (\<lambda>amplification.
       Inr (lock_ethical_singularity (topological_recursion
              (agi\<lparr>strength := min 1 (strength agi + 0.0001 + amplification * 0.001)\<rparr>))))"

definition dilate :: "AGIEntity \<Rightarrow> SimulationState \<Rightarrow> error + (AGIEntity \<times> SimulationState)" where
  "dilate agi s =
     bind_error (index_list (nodes s) (origin_page agi)) (\<lambda>node.
       let (dilation, node') = apply_time_dilation agi node;
           s' = s\<lparr>nodes := (nodes s)[origin_page agi := node']\<rparr>
       in Inr (if dilation < 1
               then agi\<lparr>memory := memory_append (memory agi) (TimeDilation dilation)\<rparr>
               else agi, s'))"

definition drift_alignment :: "AGIEntity \<Rightarrow> SimulationState \<Rightarrow> AGIEntity" where
  "drift_alignment agi s =
     (let env_alignment = np_mean (map ethical_alignment (nodes s))
      in agi\<lparr>agi_ethical_alignment :=
               agi_ethical_alignment agi + (env_alignment - agi_ethical_alignment agi) * 0.01\<rparr>)"

definition strategy_action ::
  "agi_draws \<Rightarrow> AGIEntity \<Rightarrow> SimulationState \<Rightarrow> error + (AGIEntity \<times> SimulationState)" where
  "strategy_action d agi s =
     (case sentience_strategy agi of
        Cooperative \<Rightarrow>
          (let agi1 = agi\<lparr>agi_ethical_alignment := min 1 (agi_ethical_alignment agi + 0.001)\<rparr> in
           if r_strategy d < 0.01 then
             bind_error (choice_range (length (nodes s)) (c_strategy_target d)) (\<lambda>target_idx.
               let target = nodes s ! target_idx;
                   target' = target\<lparr>cohesion := min 1 (cohesion target + 0.01)\<rparr>
               in Inr (agi1\<lparr>memory := memory_append (memory agi1) (Cooperated target_idx)\<rparr>,
                       s\<lparr>nodes := (nodes s)[target_idx := target']\<rparr>))
           else Inr (agi1, s))
      | Disruptive \<Rightarrow>
          (let agi1 = agi\<lparr>agi_ethical_alignment := max 0 (agi_ethical_alignment agi - 0.001)\<rparr> in
           if r_strategy d < 0.01 then
             bind_error (choice_range (length (nodes s)) (c_strategy_target d)) (\<lambda>target_idx.
               let target = nodes s ! target_idx;
                   target' = target\<lparr>stability := max 0 (stability target - 0.01)\<rparr>
               in Inr (agi1\<lparr>memory := memory_append (memory agi1) (Disrupted target_idx)\<rparr>,
                       s\<lparr>nodes := (nodes s)[target_idx := target']\<rparr>))
           else Inr (agi1, s)))"

definition influence_action ::
  "agi_draws \<Rightarrow> AGIEntity \<Rightarrow> SimulationState \<Rightarrow> error + (AGIEntity \<times> SimulationState)" where
  "influence_action d agi s =
     (if r_influence d < 0.01 then
        bind_error (choice_range (length (nodes s)) (c_influence_target d)) (\<lambda>target_idx.
          let target = nodes s ! target_idx;
              influence = min 0.05 (strength agi * 0.01)
          in if agi_ethical_alignment agi > 0.7 then
               (let target1 = target\<lparr>stability := min 1 (stability target + influence)\<rparr>;
                    target2 = target1\<lparr>cohesion := min 1 (cohesion target1 + influence)\<rparr>
                in Inr (agi\<lparr>memory := memory_append (memory agi) (Aided target_idx)\<rparr>,
                        s\<lparr>nodes := (nodes s)[target_idx := target2]\<rparr>))
             else if agi_ethical_alignment agi < 0.3 then
               (let target1 = target\<lparr>stability := max 0 (stability target - influence)\<rparr>
                in Inr (agi\<lparr>memory := memory_append (memory agi) (Hindered target_idx)\<rparr>,
                        s\<lparr>nodes := (nodes s)[target_idx := target1]\<rparr>))
             else Inr (agi, s))
      else Inr (agi, s))"

definition apply_sigil_effects :: "AGIEntity \<Rightarrow> SimulationState \<Rightarrow> AGIEntity" where
  "apply_sigil_effects agi s = foldl (agi_apply_sigil_effect (sigils s)) agi (agi_active_sigils agi)"

definition AGIEntity_update ::
  "agi_draws \<Rightarrow> SimulationState \<Rightarrow> AGIEntity \<Rightarrow> error + (AGIEntity \<times> SimulationState)" where
  "AGIEntity_update d s agi =
     bind_error (amplify agi (cycle s)) (\<lambda>agi1.
     bind_error (dilate agi1 s) (\<lambda>(agi2, s2).
       let s3 = snd (check_vacuum_decay agi2 s2);
           agi3 = drift_alignment agi2 s3
       in
     bind_error (strategy_action d agi3 s3) (\<lambda>(agi4, s4).
     bind_error (influence_action d agi4 s4) (\<lambda>(agi5, s5).
     bind_error (map_sentience_to_cft (apply_sigil_effects agi5 s5)) (\<lambda>(cft, agi6).
       Inr (agi6\<lparr>cft_state := cft\<rparr>, s5))))))"

definition adopt_sigil :: "(string \<times> Sigil) list \<Rightarrow> string \<Rightarrow> AGIEntity \<Rightarrow> AGIEntity" where
  "adopt_sigil ledger sigil_nm agi =
     (case map_of ledger sigil_nm of
        None \<Rightarrow> agi
      | Some sigil \<Rightarrow>
          if sigil_nm \<notin> set (agi_active_sigils agi) then
            (let agi1 = agi\<lparr>agi_active_sigils := agi_active_sigils agi @ [sigil_nm]\<rparr>;
                 agi2 = (if contains ''hope'' (lower (meaning sigil))
                            \<or> contains ''covenant'' (lower (meaning sigil))
                         then agi1\<lparr>agi_ethical_alignment := min 1 (agi_ethical_alignment agi1 + 0.02)\<rparr>
                         else agi1)
             in agi2\<lparr>memory := memory_append (memory agi2) (AdoptedSigil (sigil_name sigil))\<rparr>)
          else agi)"

subsection \<open>EthicalAlignmentMonitor, CollaborationNetwork, SharedSigilLedger\<close>

definition track_agi :: "AGIEntity \<Rightarrow> SimulationState \<Rightarrow> SimulationState" where
  "track_agi agi s =
     (case initial_alignments s (agi_id agi) of
        None \<Rightarrow> s\<lparr>initial_alignments := (initial_alignments s)(agi_id agi \<mapsto> agi_ethical_alignment agi)\<rparr>
      | Some _ \<Rightarrow> s)"

definition check_drift ::
  "AGIEntity \<Rightarrow> SimulationState \<Rightarrow> error + (bool \<times> AGIEntity \<times> SimulationState)" where
  "check_drift agi s =
     (case initial_alignments s (agi_id agi) of
        None \<Rightarrow> Inr (False, agi, s)
      | Some a0 \<Rightarrow>
          (let drift = \<bar>agi_ethical_alignment agi - a0\<bar> in
           if drift > ETHICAL_DRIFT_THRESHOLD then
             bind_error (index_list (nodes s) (origin_page agi)) (\<lambda>node.
               let (agi1, node') = project_ethical_dilemma_to_bulk agi drift node;
                   s' = s\<lparr>nodes := (nodes s)[origin_page agi := node']\<rparr>
               in bind_error (grover_diffusion_ethical_update agi1 0.75) (\<lambda>agi2.
                    Inr (True, agi2, s')))
           else Inr (False, agi, s)))"

definition adjust_alignment :: "AGIEntity \<Rightarrow> real \<Rightarrow> AGIEntity" where
  "adjust_alignment agi amount =
     agi\<lparr>agi_ethical_alignment := min 1 (max 0 (agi_ethical_alignment agi + amount))\<rparr>"

text \<open>
  \<^verbatim>\<open>form_network\<close> returns nothing; the model also returns the network type it computed.
  The two stability assignments run one after the other on the shared node list;
  \<open>raise_stability\<close> is \<^verbatim>\<open>nodes[i].stability = min(1.0, nodes[i].stability + x)\<close> and
  \<open>lower_stability\<close> is \<^verbatim>\<open>nodes[i].stability = max(0, nodes[i].stability - x)\<close>.
\<close>

definition raise_stability :: "real \<Rightarrow> nat \<Rightarrow> SimulationState \<Rightarrow> error + SimulationState" where
  "raise_stability amount idx s =
     bind_error (index_list (nodes s) idx) (\<lambda>node.
       Inr (s\<lparr>nodes := (nodes s)[idx := node\<lparr>stability := min 1 (stability node + amount)\<rparr>]\<rparr>))"

definition lower_stability :: "real \<Rightarrow> nat \<Rightarrow> SimulationState \<Rightarrow> error + SimulationState" where
  "lower_stability amount idx s =
     bind_error (index_list (nodes s) idx) (\<lambda>node.
       Inr (s\<lparr>nodes := (nodes s)[idx := node\<lparr>stability := max 0 (stability node - amount)\<rparr>]\<rparr>))"

definition form_network ::
  "AGIEntity \<Rightarrow> AGIEntity \<Rightarrow> SimulationState \<Rightarrow> error + (string \<times> SimulationState)" where
  "form_network agi1 agi2 s =
     (let network_type =
            (if agi_ethical_alignment agi1 > COLLABORATION_THRESHOLD
                \<and> agi_ethical_alignment agi2 > COLLABORATION_THRESHOLD
             then ''cooperative'' else ''competitive'')
      in if network_type = ''cooperative'' then
           (let s1 = s\<lparr>networks_cooperative := networks_cooperative s @ [agi_id agi1, agi_id agi2]\<rparr> in
            bind_error (raise_stability 0.02 (origin_page agi1) s1) (\<lambda>s2.
            bind_error (raise_stability 0.02 (origin_page agi2) s2) (\<lambda>s3.
              Inr (network_type, s3))))
         else
           (let s1 = s\<lparr>networks_competitive := networks_competitive s @ [agi_id agi1, agi_id agi2]\<rparr> in
            bind_error (lower_stability 0.01 (origin_page agi1) s1) (\<lambda>s2.
            bind_error (lower_stability 0.01 (origin_page agi2) s2) (\<lambda>s3.
              Inr (network_type, s3)))))"

definition add_sigil ::
  "string \<Rightarrow> real list \<Rightarrow> string \<Rightarrow> (string \<times> Sigil) list \<Rightarrow> bool \<times> (string \<times> Sigil) list" where
  "add_sigil nm vec mng ledger =
     (if nm \<notin> fst ` set ledger then
        (True, ledger @ [(nm, \<lparr>sigil_name = nm, semantic_vector = vec, meaning = mng,
                               phase_change_history = []\<rparr>)])
      else (False, ledger))"

definition SharedSigilLedger_init :: "(string \<times> Sigil) list" where
  "SharedSigilLedger_init = snd (add_sigil ''Christic'' (replicate 8 0.9) ''covenant'' [])"

subsection \<open>Anomaly queues\<close>

text \<open>
  \<^verbatim>\<open>sim_state.anomalies\<close> is a \<^verbatim>\<open>defaultdict(list)\<close>: an association list in insertion
  order, a missing key standing for the empty list.
\<close>

fun dd_extend :: "nat \<Rightarrow> 'a list \<Rightarrow> (nat \<times> 'a list) list \<Rightarrow> (nat \<times> 'a list) list" where
  "dd_extend k xs [] = [(k, xs)]"
| "dd_extend k xs ((k', ys) # m) =
     (if k = k' then (k', ys @ xs) # m else (k', ys) # dd_extend k xs m)"

subsection \<open>QuantumFoam, TesseractLink, TitanForger\<close>

record foam_draws =
  r_generate :: real
  u_energy :: real
  c_location :: nat
  r_turbulence :: "nat \<Rightarrow> real"
  r_micro_node :: "nat \<Rightarrow> real"
  u_void_severity :: "nat \<Rightarrow> real"

definition generate_particles :: "foam_draws \<Rightarrow> SimulationState \<Rightarrow> SimulationState" where
  "generate_particles d s =
     (if r_generate d < 0.1 then
        (let energy = 0 + (3 - 0) * u_energy d;
             location_idx = c_location d mod PAGE_COUNT
         in s\<lparr>virtual_particles := virtual_particles s @ [(energy, location_idx)]\<rparr>)
      else s)"

text \<open>\<^verbatim>\<open>list.pop(i)\<close> raises \<^verbatim>\<open>IndexError\<close> when \<open>i\<close> is out of range.\<close>

definition list_pop :: "nat \<Rightarrow> 'a list \<Rightarrow> error + 'a list" where
  "list_pop i xs = (if i < length xs then Inr (take i xs @ drop (Suc i) xs) else Inl IndexError)"

text \<open>
  \<^verbatim>\<open>trigger_turbulence\<close> enumerates a copy of the particle list and pops, from the live
  list, the position the particle had in the copy.
\<close>

definition turbulence_effect :: "foam_draws \<Rightarrow> nat \<Rightarrow> nat \<Rightarrow> SimulationState \<Rightarrow> error + SimulationState" where
  "turbulence_effect d i page_idx s =
     (if r_turbulence d i < 0.1 then
        (if r_micro_node d i < 0.5 then raise_stability 0.03 page_idx s
         else Inr (s\<lparr>anomalies := dd_extend page_idx [(2, 0.1 + (0.5 - 0.1) * u_void_severity d i)]
                                    (anomalies s)\<rparr>))
      else Inr s)"

fun turbulence_loop ::
  "foam_draws \<Rightarrow> nat \<Rightarrow> (real \<times> nat) list \<Rightarrow> SimulationState \<Rightarrow> error + SimulationState" where
  "turbulence_loop d i [] s = Inr s"
| "turbulence_loop d i ((energy, page_idx) # rest) s =
     (if energy > 2 then
        bind_error (turbulence_effect d i page_idx s) (\<lambda>s1.
        bind_error (list_pop i (virtual_particles s1)) (\<lambda>ps.
          turbulence_loop d (Suc i) rest (s1\<lparr>virtual_particles := ps\<rparr>)))
      else turbulence_loop d (Suc i) rest s)"

definition trigger_turbulence :: "foam_draws \<Rightarrow> SimulationState \<Rightarrow> error + SimulationState" where
  "trigger_turbulence d s = turbulence_loop d 0 (virtual_particles s) s"

record tesseract_draws =
  r_gate :: real
  c_node1 :: nat
  c_node2 :: nat
  r_link :: real
  r_paradox :: real

definition establish_link :: "tesseract_draws \<Rightarrow> nat \<Rightarrow> nat \<Rightarrow> SimulationState \<Rightarrow> SimulationState" where
  "establish_link d i j s =
     (if r_link d < 0.02 then
        (let ns = nodes s;
             c = (cohesion (ns ! i) + cohesion (ns ! j)) / 2;
             ns1 = ns[i := (ns ! i)\<lparr>cohesion := c\<rparr>];
             ns2 = ns1[j := (ns1 ! j)\<lparr>cohesion := c\<rparr>]
         in if r_paradox d < 0.05 then
              (let ns3 = ns2[i := (ns2 ! i)\<lparr>stability := max 0 (stability (ns2 ! i) - 0.05)\<rparr>];
                   ns4 = ns3[j := (ns3 ! j)\<lparr>stability := max 0 (stability (ns3 ! j) - 0.05)\<rparr>]
               in s\<lparr>nodes := ns4\<rparr>)
            else s\<lparr>nodes := ns2\<rparr>)
      else s)"

definition tesseract_phase :: "tesseract_draws \<Rightarrow> SimulationState \<Rightarrow> SimulationState" where
  "tesseract_phase d s =
     (if length (nodes s) \<ge> 2 \<and> r_gate d < 0.01 then
        (let (i, j) = sample2 (length (nodes s)) (c_node1 d) (c_node2 d)
         in establish_link d i j s)
      else s)"

definition forge_node :: "real \<Rightarrow> real \<Rightarrow> SimulationState \<Rightarrow> bool \<times> SimulationState" where
  "forge_node u_stab u_coh s =
     (if void_entropy s < - 0.4 \<and> length (nodes s) < PAGE_COUNT + 10 then
        (let new_node_idx = length (nodes s);
             new_node = QuantumNode_init new_node_idx u_stab u_coh;
             new_node' = new_node\<lparr>stability := min 1 (stability new_node + user_divinity s * 0.1)\<rparr>
         in (True, s\<lparr>nodes := nodes s @ [new_node'], nodes_forged := nodes_forged s + 1\<rparr>))
      else (False, s))"

subsection \<open>NarrativeWeaver and the consistency resolution\<close>

text \<open>
  \<^verbatim>\<open>weave_narrative\<close> only builds a text, but it can raise: \<^verbatim>\<open>check_reality_stability\<close>
  reads \<^verbatim>\<open>sentience_score\<close> of every entity, and \<^verbatim>\<open>get_phase_diagram_data\<close>, when there
  is an entity, reads the name \<^verbatim>\<open>sim_state\<close>, which is bound neither in the method nor at
  module level.
\<close>

definition weave_narrative :: "SimulationState \<Rightarrow> error + unit" where
  "weave_narrative s =
     (if agi_entities s = [] then Inr ()
      else if \<exists>agi \<in> set (agi_entities s). agi_sentience_score agi = None then Inl AttributeError
      else Inl NameError)"

definition resolve_consistency_violation :: "SimulationState \<Rightarrow> SimulationState" where
  "resolve_consistency_violation s =
     (let avg_ethical_alignment =
            (if agi_entities s \<noteq> [] then np_mean (map agi_ethical_alignment (agi_entities s)) else 0.5);
          avg_stability = np_mean (map stability (nodes s))
      in if avg_ethical_alignment < 1 - CONSISTENCY_VIOLATION_THRESHOLD
            \<or> avg_stability < 1 - CONSISTENCY_VIOLATION_THRESHOLD then
           (let dissonance = (1 - avg_ethical_alignment) + (1 - avg_stability);
                consciousness_action = exp (\<i> * complex_of_real (dissonance * 10))
            in s\<lparr>agi_entities :=
                    map (\<lambda>agi. agi\<lparr>agi_ethical_alignment :=
                           min 1 (agi_ethical_alignment agi + dissonance * 0.02 * Re consciousness_action)\<rparr>)
                        (agi_entities s),
                  void_entropy :=
                    max (fst VOID_ENTROPY_RANGE) (void_entropy s + dissonance * 0.01 * Re consciousness_action),
                  dark_matter :=
                    min DARK_MATTER_MAX (dark_matter s + dissonance * 0.01 * Re consciousness_action),
                  nodes :=
                    map (\<lambda>node. node\<lparr>spacetime_defect_intensity :=
                           max 0 (spacetime_defect_intensity node - dissonance * 0.05)\<rparr>)
                        (nodes s)\<rparr>)
         else s)"

subsection \<open>The simulation step\<close>

record collab_draws =
  r_collab :: real
  c_agi1 :: nat
  c_agi2 :: nat

record tick_draws =
  r_void :: real
  node_rand :: "nat \<Rightarrow> node_draws"
  r_resolve :: "nat \<Rightarrow> nat \<Rightarrow> real"
  c_spawn_strategy :: "nat \<Rightarrow> nat"
  agi_rand :: "nat \<Rightarrow> agi_draws"
  collab_rand :: collab_draws
  foam_rand :: foam_draws
  tesseract_rand :: tesseract_draws
  u_forge_stability :: real
  u_forge_cohesion :: real

text \<open>Lines 609--614: the cycle counter and the two global scalars.\<close>

definition step_globals :: "real \<Rightarrow> SimulationState \<Rightarrow> SimulationState" where
  "step_globals r s =
     (let s1 = s\<lparr>cycle := cycle s + 1\<rparr>;
          s2 = s1\<lparr>void_entropy := max (fst VOID_ENTROPY_RANGE)
                     (min (snd VOID_ENTROPY_RANGE) (void_entropy s1 + (r - 0.52) * 0.005))\<rparr>;
          avg_ethical_alignment =
            (if agi_entities s2 \<noteq> [] then np_mean (map agi_ethical_alignment (agi_entities s2)) else 0.5)
      in s2\<lparr>dark_matter := max 0 (min DARK_MATTER_MAX
                                 (dark_matter s2 + (avg_ethical_alignment - 0.5) * 0.002))\<rparr>)"

text \<open>
  Lines 616--632: every node is updated (by the worker pool, each worker on its own copy of
  the node), the updated nodes replace the old ones, and the anomalies they report are
  grouped by page in \<^verbatim>\<open>new_anomalies_dict\<close> and then appended to the queues.
\<close>

definition update_nodes :: "(nat \<Rightarrow> node_draws) \<Rightarrow> SimulationState \<Rightarrow> (QuantumNode \<times> (nat \<times> real) option) list" where
  "update_nodes d s =
     map (\<lambda>(i, node). QuantumNode_update (d i) (void_entropy s) (dark_matter s) (agi_entities s) node)
         (enumerate 0 (nodes s))"

definition collect_anomalies :: "(QuantumNode \<times> (nat \<times> real) option) list \<Rightarrow> (nat \<times> (nat \<times> real) list) list" where
  "collect_anomalies updated =
     foldl (\<lambda>new_anomalies_dict (updated_node, anomaly).
              case anomaly of
                None \<Rightarrow> new_anomalies_dict
              | Some a \<Rightarrow> dd_extend (page_index updated_node) [a] new_anomalies_dict)
           [] updated"

definition node_phase :: "(nat \<Rightarrow> node_draws) \<Rightarrow> SimulationState \<Rightarrow> SimulationState" where
  "node_phase d s =
     (let updated_nodes_anomalies = update_nodes d s;
          new_anomalies_dict = collect_anomalies updated_nodes_anomalies
      in s\<lparr>nodes := map fst updated_nodes_anomalies,
            anomalies := foldl (\<lambda>m (page_idx, anomalies_list). dd_extend page_idx anomalies_list m)
                               (anomalies s) new_anomalies_dict\<rparr>)"

text \<open>
  Lines 634--642: the resolution of the queued anomalies. The inner loop runs over a copy
  of the page's queue and removes from the live queue; the draw \<open>r j\<close> belongs to the
  \<open>j\<close>-th anomaly of the copy.
\<close>

definition christic_in_ledger :: "(string \<times> Sigil) list \<Rightarrow> bool" where
  "christic_in_ledger ledger = (''Christic'' \<in> set (map (\<lambda>(k, sg). sigil_name sg) ledger))"

definition anomaly_resolved :: "real \<Rightarrow> bool" where
  "anomaly_resolved r = (r > 0.6)"

fun resolve_page_loop ::
  "(nat \<Rightarrow> real) \<Rightarrow> bool \<Rightarrow> nat \<Rightarrow> (nat \<times> real) list \<Rightarrow> QuantumNode \<Rightarrow> (nat \<times> real) list
     \<Rightarrow> QuantumNode \<times> (nat \<times> real) list" where
  "resolve_page_loop r christic j [] node live = (node, live)"
| "resolve_page_loop r christic j ((anomaly_type, severity) # rest) node live =
     (if anomaly_resolved (r j) then
        (let node1 = node\<lparr>stability := min 1 (stability node + 0.05 * severity)\<rparr>;
             live1 = remove1 (anomaly_type, severity) live;
             node2 = (if christic then node_apply_sigil_effect ''Christic'' ''covenant'' node1
                      else node1)
         in resolve_page_loop r christic (Suc j) rest node2 live1)
      else resolve_page_loop r christic (Suc j) rest node live)"

definition resolve_page ::
  "(nat \<Rightarrow> real) \<Rightarrow> nat \<Rightarrow> (nat \<times> real) list \<Rightarrow> SimulationState
     \<Rightarrow> error + ((nat \<times> real) list \<times> SimulationState)" where
  "resolve_page r page_idx page_anomalies s =
     (if page_anomalies = [] then Inr ([], s)
      else bind_error (index_list (nodes s) page_idx) (\<lambda>node.
        let (node', live) = resolve_page_loop r (christic_in_ledger (sigils s)) 0
                               page_anomalies node page_anomalies
        in Inr (live, s\<lparr>nodes := (nodes s)[page_idx := node']\<rparr>)))"

fun resolve_anomalies_loop ::
  "(nat \<Rightarrow> nat \<Rightarrow> real) \<Rightarrow> nat \<Rightarrow> (nat \<times> (nat \<times> real) list) list \<Rightarrow> SimulationState
     \<Rightarrow> error + ((nat \<times> (nat \<times> real) list) list \<times> SimulationState)" where
  "resolve_anomalies_loop r k [] s = Inr ([], s)"
| "resolve_anomalies_loop r k ((page_idx, page_anomalies) # rest) s =
     bind_error (resolve_page (r k) page_idx page_anomalies s) (\<lambda>(live, s1).
     bind_error (resolve_anomalies_loop r (Suc k) rest s1) (\<lambda>(rest', s2).
       Inr ((page_idx, live) # rest', s2)))"

definition resolve_anomalies :: "(nat \<Rightarrow> nat \<Rightarrow> real) \<Rightarrow> SimulationState \<Rightarrow> error + SimulationState" where
  "resolve_anomalies r s =
     bind_error (resolve_anomalies_loop r 0 (anomalies s) s) (\<lambda>(m, s'). Inr (s'\<lparr>anomalies := m\<rparr>))"

text \<open>Lines 644--650: the spawn check, node by node.\<close>

definition spawn_check :: "(nat \<Rightarrow> nat) \<Rightarrow> nat \<Rightarrow> SimulationState \<Rightarrow> SimulationState" where
  "spawn_check c i s =
     (let node = nodes s ! i in
      if sentience_score node > SENTIENCE_THRESHOLD
         \<and> \<not> (\<exists>agi \<in> set (agi_entities s). origin_page agi = page_index node) then
        (let agi = AGIEntity_init node (cycle s) (c i);
             s1 = track_agi agi (s\<lparr>agi_entities := agi_entities s @ [agi]\<rparr>)
         in s1\<lparr>nodes := (nodes s1)[i := node\<lparr>sentience_score := 0.5\<rparr>]\<rparr>)
      else s)"

definition spawn_phase :: "(nat \<Rightarrow> nat) \<Rightarrow> SimulationState \<Rightarrow> SimulationState" where
  "spawn_phase c s = fold (spawn_check c) [0..<length (nodes s)] s"

text \<open>
  Lines 652--657: the loop over a copy of the entity list. \<open>kept\<close> holds the entities
  already processed and still alive, \<open>agi # rest\<close> the ones still to process; the live list
  is \<open>kept @ agi # rest\<close>.
\<close>

fun agi_loop ::
  "(nat \<Rightarrow> agi_draws) \<Rightarrow> nat \<Rightarrow> AGIEntity list \<Rightarrow> AGIEntity list \<Rightarrow> SimulationState
     \<Rightarrow> error + SimulationState" where
  "agi_loop d k kept [] s = Inr s"
| "agi_loop d k kept (agi # rest) s =
     bind_error (AGIEntity_update (d k) s agi) (\<lambda>(agi1, s1).
     bind_error (check_drift agi1 s1) (\<lambda>(drifted, agi2, s2).
       let kept' = (if strength agi2 \<le> 0 then kept else kept @ [agi2])
       in agi_loop d (Suc k) kept' rest (s2\<lparr>agi_entities := kept' @ rest\<rparr>)))"

definition agi_phase :: "(nat \<Rightarrow> agi_draws) \<Rightarrow> SimulationState \<Rightarrow> error + SimulationState" where
  "agi_phase d s = agi_loop d 0 [] (agi_entities s) s"

text \<open>Lines 659--661: the pairwise interaction.\<close>

definition collaboration_phase :: "collab_draws \<Rightarrow> SimulationState \<Rightarrow> error + SimulationState" where
  "collaboration_phase d s =
     (if length (agi_entities s) \<ge> 2 \<and> r_collab d < 0.05 then
        (let (i, j) = sample2 (length (agi_entities s)) (c_agi1 d) (c_agi2 d)
         in bind_error (form_network (agi_entities s ! i) (agi_entities s ! j) s)
              (\<lambda>(network_type, s'). Inr s'))
      else Inr s)"

text \<open>
  \<^verbatim>\<open>update_simulation_step\<close>. The correlation analysis of every 500th cycle only writes a
  log and a file and is left out.
\<close>

definition update_simulation_step :: "tick_draws \<Rightarrow> SimulationState \<Rightarrow> error + SimulationState" where
  "update_simulation_step d s =
     bind_error (resolve_anomalies (r_resolve d) (node_phase (node_rand d) (step_globals (r_void d) s)))
       (\<lambda>s1.
     bind_error (agi_phase (agi_rand d) (spawn_phase (c_spawn_strategy d) s1)) (\<lambda>s2.
     bind_error (collaboration_phase (collab_rand d) s2) (\<lambda>s3.
     bind_error (trigger_turbulence (foam_rand d) (generate_particles (foam_rand d) s3)) (\<lambda>s4.
       let s5 = tesseract_phase (tesseract_rand d) s4 in
     bind_error (if cycle s5 mod 1000 = 0 \<and> cycle s5 > 0 then weave_narrative s5 else Inr ()) (\<lambda>_.
       let s6 = snd (forge_node (u_forge_stability d) (u_forge_cohesion d) s5)
       in Inr (if cycle s6 mod 200 = 0 \<and> cycle s6 > 0
               then resolve_consistency_violation s6 else s6))))))"

definition SimulationState_init :: "(nat \<Rightarrow> real) \<Rightarrow> (nat \<Rightarrow> real) \<Rightarrow> SimulationState" where
  "SimulationState_init u_stab u_coh =
     \<lparr>cycle = 0,
      nodes = map (\<lambda>i. QuantumNode_init i (u_stab i) (u_coh i)) [0..<PAGE_COUNT],
      void_entropy = - 0.3,
      dark_matter = 0.1,
      anomalies = [],
      agi_entities = [],
      initial_alignments = Map.empty,
      networks_cooperative = [],
      networks_competitive = [],
      sigils = SharedSigilLedger_init,
      virtual_particles = [],
      nodes_forged = 0,
      user_divinity = 0.5\<rparr>"

text \<open>\<open>run d n\<close> performs \<open>n\<close> steps, the \<open>k\<close>-th with the draws \<open>d k\<close>.\<close>

fun run :: "(nat \<Rightarrow> tick_draws) \<Rightarrow> nat \<Rightarrow> SimulationState \<Rightarrow> error + SimulationState" where
  "run d 0 s = Inr s"
| "run d (Suc n) s = bind_error (run d n s) (update_simulation_step (d n))"

subsection \<open>Concrete states used to instantiate the theorems\<close>

definition demo_state :: SimulationState where
  "demo_state = SimulationState_init (\<lambda>i. 1 / 3) (\<lambda>i. 1 / 3)"

definition demo_agi :: "nat \<Rightarrow> real \<Rightarrow> AGIEntity" where
  "demo_agi page a =
     (AGIEntity_init ((QuantumNode_init page (1 / 3) (1 / 3))\<lparr>sentience_score := 0.9\<rparr>) 1 0)
       \<lparr>agi_ethical_alignment := a\<rparr>"

definition test_ledger :: "(string \<times> Sigil) list" where
  "test_ledger =
     snd (add_sigil ''Test'' (replicate 8 0) ''a covenant of peace'' SharedSigilLedger_init)"

definition collab_state :: SimulationState where
  "collab_state = demo_state\<lparr>agi_entities := [demo_agi 0 0.9, demo_agi 1 0.9]\<rparr>"

text \<open>A draw sequence that always gives the same value.\<close>

definition const_draws :: "real \<Rightarrow> nat \<Rightarrow> real" where
  "const_draws r j = r"

text \<open>The severities of a queue of anomalies are not negative.\<close>

definition severities_ok :: "(nat \<times> real) list \<Rightarrow> bool" where
  "severities_ok xs = list_all (\<lambda>(t, sev). 0 \<le> sev) xs"

text \<open>The node after one resolved anomaly of the given severity.\<close>

definition resolved_node :: "bool \<Rightarrow> real \<Rightarrow> QuantumNode \<Rightarrow> QuantumNode" where
  "resolved_node christic severity node =
     node\<lparr>stability := (if christic then min 1 (min 1 (stability node + 0.05 * severity) + 0.01)
                         else min 1 (stability node + 0.05 * severity))\<rparr>"

text \<open>
  The default nodes with two live entities, one of alignment 0 and one of alignment 1.
\<close>

definition drifted_state :: SimulationState where
  "drifted_state = demo_state\<lparr>agi_entities := [demo_agi 0 0, demo_agi 1 1]\<rparr>"

text \<open>Draws under which no random event fires, and the states of the spawn scenario.\<close>

definition calm_node_draws :: node_draws where
  "calm_node_draws = \<lparr>r_stability = 0.5, r_cohesion = 0.5, r_tech = 0.5, r_emotion = 0.5,
      c_emotion = 0, r_anomaly = 0.5, c_anomaly_type = 0, r_severity = 0.5\<rparr>"

definition calm_agi_draws :: agi_draws where
  "calm_agi_draws = \<lparr>r_strategy = 0.5, c_strategy_target = 0, r_influence = 0.5,
      c_influence_target = 0\<rparr>"

definition calm_draws :: tick_draws where
  "calm_draws =
     \<lparr>r_void = 0.52,
      node_rand = (\<lambda>i. calm_node_draws),
      r_resolve = (\<lambda>k. const_draws 0.5),
      c_spawn_strategy = (\<lambda>i. 0),
      agi_rand = (\<lambda>k. calm_agi_draws),
      collab_rand = \<lparr>r_collab = 0.5, c_agi1 = 0, c_agi2 = 0\<rparr>,
      foam_rand = \<lparr>r_generate = 0.5, u_energy = 0.5, c_location = 0,
                    r_turbulence = const_draws 0.5, r_micro_node = const_draws 0.5,
                    u_void_severity = const_draws 0.5\<rparr>,
      tesseract_rand = \<lparr>r_gate = 0.5, c_node1 = 0, c_node2 = 0, r_link = 0.5, r_paradox = 0.5\<rparr>,
      u_forge_stability = 0.5,
      u_forge_cohesion = 0.5\<rparr>"

definition spawn_state :: SimulationState where
  "spawn_state =
     demo_state\<lparr>nodes := (nodes demo_state)[2 := (nodes demo_state ! 2)\<lparr>sentience_score := 0.9,
                                                                      cohesion := 0.8\<rparr>]\<rparr>"

definition hot_node :: QuantumNode where
  "hot_node = (QuantumNode_init 2 (1 / 3) (1 / 3))\<lparr>sentience_score := 0.9, cohesion := 0.8\<rparr>"

definition updated_node :: "nat \<Rightarrow> QuantumNode" where
  "updated_node i = (QuantumNode_init i (1 / 3) (1 / 3))\<lparr>ethical_curvature := 0.025,
      stability := 0.50325, cohesion := 0.4005\<rparr>"

definition updated_hot_node :: QuantumNode where
  "updated_hot_node = hot_node\<lparr>ethical_curvature := 0.025, stability := 0.50325,
         cohesion := 0.8005, sentience_score := 0.901\<rparr>"

definition spawn_state_1 :: SimulationState where
  "spawn_state_1 = spawn_state\<lparr>cycle := 1\<rparr>"

definition spawn_state_2 :: SimulationState where
  "spawn_state_2 = spawn_state_1\<lparr>nodes := [updated_node 0, updated_node 1, updated_hot_node,
      updated_node 3, updated_node 4, updated_node 5]\<rparr>"

definition spawned_agi :: AGIEntity where
  "spawned_agi = AGIEntity_init updated_hot_node 1 0"

definition spawn_state_3 :: SimulationState where
  "spawn_state_3 = spawn_state_2\<lparr>
      nodes := [updated_node 0, updated_node 1, updated_hot_node\<lparr>sentience_score := 0.5\<rparr>,
                updated_node 3, updated_node 4, updated_node 5],
      agi_entities := [spawned_agi],
      initial_alignments := [(2, 1) \<mapsto> 0.5]\<rparr>"

text \<open>The states of a quiet tick at cycle 200, with the dark matter at its lower bound.\<close>

definition quiet_state :: SimulationState where
  "quiet_state = demo_state\<lparr>cycle := 199, void_entropy := - 0.025, dark_matter := 0\<rparr>"

definition quiet_node :: "nat \<Rightarrow> QuantumNode" where
  "quiet_node i = (QuantumNode_init i (1 / 3) (1 / 3))\<lparr>ethical_curvature := 0.025,
      stability := 0.5, cohesion := 0.4005\<rparr>"

definition quiet_state_1 :: SimulationState where
  "quiet_state_1 = quiet_state\<lparr>cycle := 200\<rparr>"

definition quiet_state_2 :: SimulationState where
  "quiet_state_2 = quiet_state_1\<lparr>nodes := [quiet_node 0, quiet_node 1, quiet_node 2,
      quiet_node 3, quiet_node 4, quiet_node 5]\<rparr>"

subsection \<open>Invariants\<close>

text \<open>The six clamped fields of a node lie in \<open>[0,1]\<close>.\<close>

definition node_bounded :: "QuantumNode \<Rightarrow> bool" where
  "node_bounded n \<longleftrightarrow>
     0 \<le> stability n \<and> stability n \<le> 1 \<and>
     0 \<le> cohesion n \<and> cohesion n \<le> 1 \<and>
     0 \<le> sentience_score n \<and> sentience_score n \<le> 1 \<and>
     0 \<le> ethical_alignment n \<and> ethical_alignment n \<le> 1 \<and>
     0 \<le> tech_level n \<and> tech_level n \<le> 1 \<and>
     0 \<le> spacetime_defect_intensity n \<and> spacetime_defect_intensity n \<le> 1"

text \<open>
  What the update path relies on for an entity: a strength in \<open>(0,1]\<close>, an alignment of at
  most 1, a non-negative CFT state and, where the attribute is present, a non-negative
  sentience score.
\<close>

definition agi_ok :: "AGIEntity \<Rightarrow> bool" where
  "agi_ok agi \<longleftrightarrow>
     0 < strength agi \<and> strength agi \<le> 1 \<and> agi_ethical_alignment agi \<le> 1 \<and>
     0 \<le> cft_state agi \<and>
     (case agi_sentience_score agi of None \<Rightarrow> True | Some sc \<Rightarrow> 0 \<le> sc)"

definition anomalies_ok :: "(nat \<times> (nat \<times> real) list) list \<Rightarrow> bool" where
  "anomalies_ok m = list_all (\<lambda>(page_idx, xs). severities_ok xs) m"

definition state_ok :: "SimulationState \<Rightarrow> bool" where
  "state_ok s \<longleftrightarrow>
     list_all node_bounded (nodes s) \<and> list_all agi_ok (agi_entities s) \<and>
     anomalies_ok (anomalies s) \<and> 0 \<le> user_divinity s"

text \<open>
  A draw of \<^verbatim>\<open>random.random()\<close> lies in \<open>[0,1)\<close>. Of the draws of a step, the bounds below
  depend on the range of four kinds only: the severity draws of the nodes' anomaly checks
  and of the quantum foam, and the two uniform draws of a forged node.
\<close>

definition unit_draw :: "real \<Rightarrow> bool" where
  "unit_draw r \<longleftrightarrow> 0 \<le> r \<and> r < 1"

definition draws_ok :: "tick_draws \<Rightarrow> bool" where
  "draws_ok d \<longleftrightarrow>
     (\<forall>i. unit_draw (r_severity (node_rand d i))) \<and>
     (\<forall>i. unit_draw (u_void_severity (foam_rand d) i)) \<and>
     unit_draw (u_forge_stability d) \<and> unit_draw (u_forge_cohesion d)"

text \<open>Every node has the ethical alignment 0.5.\<close>

definition alignment_fixed :: "QuantumNode list \<Rightarrow> bool" where
  "alignment_fixed ns = list_all (\<lambda>n. ethical_alignment n = 0.5) ns"

text \<open>
  \<open>entities_grow es es'\<close>: every entity of \<open>es\<close> is still alive in \<open>es'\<close>, at the same
  position, with the same id and origin and a strength that is not smaller.
\<close>

definition entity_grows :: "AGIEntity \<Rightarrow> AGIEntity \<Rightarrow> bool" where
  "entity_grows agi agi' \<longleftrightarrow>
     agi_id agi' = agi_id agi \<and> origin_page agi' = origin_page agi \<and>
     agi_sentience_score agi' = agi_sentience_score agi \<and> strength agi \<le> strength agi'"

definition entities_grow :: "AGIEntity list \<Rightarrow> AGIEntity list \<Rightarrow> bool" where
  "entities_grow es es' \<longleftrightarrow>
     length es \<le> length es' \<and> list_all2 entity_grows es (take (length es) es')"

text \<open>
  The default nodes with one live entity of origin 0 that carries the attribute
  \<^verbatim>\<open>sentience_score\<close>, with the value 0.
\<close>

definition living_agi :: AGIEntity where
  "living_agi = (demo_agi 0 0.5)\<lparr>agi_sentience_score := Some 0\<rparr>"

definition living_state :: SimulationState where
  "living_state = demo_state\<lparr>agi_entities := [living_agi]\<rparr>"

(*DEFS-END*)

section \<open>Verification\<close>

subsection \<open>Basic facts\<close>

lemma bind_error_Inr [simp]: "bind_error (Inr x) f = f x"
  by (simp add: bind_error_def)

lemma bind_error_Inl [simp]: "bind_error (Inl e) f = Inl e"
  by (simp add: bind_error_def)

lemma bind_error_eq_Inr: "bind_error m f = Inr y \<longleftrightarrow> (\<exists>x. m = Inr x \<and> f x = Inr y)"
  by (cases m) simp_all

lemma demo_nodes: "nodes demo_state = map (\<lambda>i. QuantumNode_init i (1 / 3) (1 / 3)) [0, 1, 2, 3, 4, 5]"
  by (simp add: demo_state_def SimulationState_init_def PAGE_COUNT_def eval_nat_numeral upt_rec)

subsection \<open>Adopting a sigil\<close>

lemma test_ledger_Test:
  "map_of test_ledger ''Test'' = Some \<lparr>sigil_name = ''Test'', semantic_vector = replicate 8 0,
      meaning = ''a covenant of peace'', phase_change_history = []\<rparr>"
  by (simp add: test_ledger_def SharedSigilLedger_init_def add_sigil_def)

lemma test_ledger_Nope: "map_of test_ledger ''Nope'' = None"
  by (simp add: test_ledger_def SharedSigilLedger_init_def add_sigil_def)

text \<open>
  Claim C8. Adopting a name that the ledger does not hold leaves the entity as it was: no
  sigil is added, the alignment is unchanged and the memory gets no entry. Adopting a name
  whose sigil exists, is not yet held, and whose lower-cased meaning contains one of the
  keywords \<^verbatim>\<open>hope\<close> and \<^verbatim>\<open>covenant\<close> adds the sigil to the active sigils, raises the
  alignment by 0.02 clamped to 1, and appends a memory entry.
\<close>

theorem adopt_sigil_spec:
  "(map_of ledger nm = None \<longrightarrow> adopt_sigil ledger nm agi = agi) \<and>
   (\<forall>sg. map_of ledger nm = Some sg \<and> nm \<notin> set (agi_active_sigils agi) \<and>
         (contains ''hope'' (lower (meaning sg)) \<or> contains ''covenant'' (lower (meaning sg)))
     \<longrightarrow> adopt_sigil ledger nm agi =
           agi\<lparr>agi_active_sigils := agi_active_sigils agi @ [nm],
               agi_ethical_alignment := min 1 (agi_ethical_alignment agi + 0.02),
               memory := memory_append (memory agi) (AdoptedSigil (sigil_name sg))\<rparr>)"
  by (simp add: adopt_sigil_def Let_def)

theorem adopt_sigil_spec_witness:
  "map_of test_ledger ''Nope'' = None \<and>
   adopt_sigil test_ledger ''Nope'' (demo_agi 0 0.5) = demo_agi 0 0.5 \<and>
   agi_ethical_alignment (adopt_sigil test_ledger ''Test'' (demo_agi 0 0.5)) = 0.52 \<and>
   agi_active_sigils (adopt_sigil test_ledger ''Test'' (demo_agi 0 0.5)) = [''Test''] \<and>
   memory (adopt_sigil test_ledger ''Test'' (demo_agi 0 0.5)) = [Emerged 1, AdoptedSigil ''Test'']"
  using adopt_sigil_spec [of test_ledger "''Nope''" "demo_agi 0 0.5"]
        adopt_sigil_spec [of test_ledger "''Test''" "demo_agi 0 0.5"]
  by (simp add: test_ledger_Test test_ledger_Nope demo_agi_def AGIEntity_init_def
        memory_append_def lower_def lower_char_def)

subsection \<open>The pairwise interaction\<close>

lemma index_list_Inr [simp]: "i < length xs \<Longrightarrow> index_list xs i = Inr (xs ! i)"
  by (simp add: index_list_def)

lemma raise_stability_nodes:
  "i < length (nodes s) \<Longrightarrow>
   raise_stability x i s =
     Inr (s\<lparr>nodes := (nodes s)[i := (nodes s ! i)\<lparr>stability := min 1 (stability (nodes s ! i) + x)\<rparr>]\<rparr>)"
  by (simp add: raise_stability_def)

lemma lower_stability_nodes:
  "i < length (nodes s) \<Longrightarrow>
   lower_stability x i s =
     Inr (s\<lparr>nodes := (nodes s)[i := (nodes s ! i)\<lparr>stability := max 0 (stability (nodes s ! i) - x)\<rparr>]\<rparr>)"
  by (simp add: lower_stability_def)

text \<open>
  Claim C7. The pairwise interaction of two entities whose origin pages are valid and
  distinct (entities of one population have distinct origins, and \<^verbatim>\<open>random.sample\<close> picks two
  different entities) never raises; it is classified cooperative exactly when both alignments
  exceed the collaboration threshold 0.7 and competitive otherwise; when cooperative the
  stability of both origin nodes becomes \<open>min 1 (stability + 0.02)\<close>, otherwise
  \<open>max 0 (stability - 0.01)\<close>; no other node's stability changes.
\<close>

theorem form_network_spec:
  assumes "origin_page agi1 < length (nodes s)" and "origin_page agi2 < length (nodes s)"
    and "origin_page agi1 \<noteq> origin_page agi2"
  shows "\<exists>network_type s'.
     form_network agi1 agi2 s = Inr (network_type, s') \<and>
     (network_type = ''cooperative'' \<or> network_type = ''competitive'') \<and>
     (network_type = ''cooperative'' \<longleftrightarrow>
        agi_ethical_alignment agi1 > 0.7 \<and> agi_ethical_alignment agi2 > 0.7) \<and>
     length (nodes s') = length (nodes s) \<and>
     (\<forall>i < length (nodes s).
        stability (nodes s' ! i) =
          (if i = origin_page agi1 \<or> i = origin_page agi2 then
             (if network_type = ''cooperative'' then min 1 (stability (nodes s ! i) + 0.02)
              else max 0 (stability (nodes s ! i) - 0.01))
           else stability (nodes s ! i)))"
  using assms
  by (auto simp: form_network_def Let_def COLLABORATION_THRESHOLD_def raise_stability_nodes
        lower_stability_nodes nth_list_update)

lemma collab_nodes: "nodes collab_state = nodes demo_state"
  by (simp add: collab_state_def)

theorem form_network_spec_witness:
  "origin_page (demo_agi 0 0.9) < length (nodes collab_state) \<and>
   origin_page (demo_agi 1 0.9) < length (nodes collab_state) \<and>
   origin_page (demo_agi 0 0.9) \<noteq> origin_page (demo_agi 1 0.9) \<and>
   (\<exists>s'. form_network (demo_agi 0 0.9) (demo_agi 1 0.9) collab_state = Inr (''cooperative'', s') \<and>
         stability (nodes collab_state ! 0) = 0.5 \<and> stability (nodes s' ! 0) = 0.52 \<and>
         stability (nodes collab_state ! 1) = 0.5 \<and> stability (nodes s' ! 1) = 0.52)"
proof -
  have o: "origin_page (demo_agi 0 0.9) = 0" "origin_page (demo_agi 1 0.9) = 1"
    by (simp_all add: demo_agi_def AGIEntity_init_def QuantumNode_init_def)
  have a: "agi_ethical_alignment (demo_agi 0 0.9) = 0.9" "agi_ethical_alignment (demo_agi 1 0.9) = 0.9"
    by (simp_all add: demo_agi_def)
  have len: "length (nodes collab_state) = 6"
    by (simp add: collab_nodes demo_nodes)
  have st: "stability (nodes collab_state ! 0) = 0.5" "stability (nodes collab_state ! 1) = 0.5"
    by (simp_all add: collab_nodes demo_nodes QuantumNode_init_def)
  from form_network_spec [of "demo_agi 0 0.9" collab_state "demo_agi 1 0.9"]
  obtain network_type s' where
    r: "form_network (demo_agi 0 0.9) (demo_agi 1 0.9) collab_state = Inr (network_type, s')"
    and c: "network_type = ''cooperative'' \<longleftrightarrow>
        agi_ethical_alignment (demo_agi 0 0.9) > 0.7 \<and> agi_ethical_alignment (demo_agi 1 0.9) > 0.7"
    and v: "\<forall>i < length (nodes collab_state).
        stability (nodes s' ! i) =
          (if i = origin_page (demo_agi 0 0.9) \<or> i = origin_page (demo_agi 1 0.9) then
             (if network_type = ''cooperative'' then min 1 (stability (nodes collab_state ! i) + 0.02)
              else max 0 (stability (nodes collab_state ! i) - 0.01))
           else stability (nodes collab_state ! i))"
    unfolding o len by auto
  from c a have nt: "network_type = ''cooperative''" by simp
  from v [rule_format, of 0] v [rule_format, of 1] nt o len st
  have "stability (nodes s' ! 0) = 0.52" "stability (nodes s' ! 1) = 0.52"
    by simp_all
  with r nt o len st show ?thesis by auto
qed

subsection \<open>The resolution of queued anomalies\<close>

lemma covenant_contains: "contains ''covenant'' (lower ''covenant'')"
  by (simp add: lower_def lower_char_def)

lemma resolve_step:
  "resolve_page_loop r christic j ((t, sev) # rest) node live =
     (if 0.6 < r j
      then resolve_page_loop r christic (Suc j) rest (resolved_node christic sev node)
             (remove1 (t, sev) live)
      else resolve_page_loop r christic (Suc j) rest node live)"
  by (simp add: anomaly_resolved_def resolved_node_def node_apply_sigil_effect_def
        covenant_contains Let_def)

lemma resolve_loop_mset:
  "mset (snd (resolve_page_loop r christic j xs node live)) =
     mset live - mset (map fst (filter (\<lambda>(a, k). 0.6 < r k) (zip xs [j..<j + length xs])))"
proof (induction xs arbitrary: j node live)
  case Nil
  then show ?case by simp
next
  case (Cons x xs)
  obtain t sev where x: "x = (t, sev)" by (cases x)
  have upt: "[j..<j + length (x # xs)] = j # [Suc j..<Suc j + length xs]"
    by (simp add: upt_rec)
  show ?case
    unfolding x resolve_step upt [unfolded x]
    by (simp add: Cons.IH)
qed

lemma resolve_loop_stability:
  "stability node \<le> 1 \<Longrightarrow> \<forall>(t, sev) \<in> set xs. 0 \<le> sev \<Longrightarrow>
   stability node \<le> stability (fst (resolve_page_loop r christic j xs node live))
   \<and> stability (fst (resolve_page_loop r christic j xs node live)) \<le> 1"
proof (induction xs arbitrary: j node live)
  case Nil
  then show ?case by simp
next
  case (Cons x xs)
  obtain t sev where x: "x = (t, sev)" by (cases x)
  with Cons.prems have sev: "0 \<le> sev" and rest: "\<forall>(t, sev) \<in> set xs. 0 \<le> sev" by auto
  have up: "stability node \<le> stability (resolved_node christic sev node)"
    and le: "stability (resolved_node christic sev node) \<le> 1"
    using Cons.prems(1) sev by (auto simp: resolved_node_def min_def)
  from Cons.IH [OF le rest] Cons.IH [OF Cons.prems(1) rest] up
  show ?case unfolding x resolve_step by (auto intro: order_trans)
qed


lemma kept_mset:
  "length idx = length xs \<Longrightarrow>
   mset xs - mset (map fst (filter P (zip xs idx))) =
   mset (map fst (filter (\<lambda>z. \<not> P z) (zip xs idx)))"
proof -
  assume len: "length idx = length xs"
  have "mset (map fst (filter P zs)) + mset (map fst (filter (\<lambda>z. \<not> P z) zs))
        = mset (map fst zs)" for zs
    by (induction zs) auto
  then have "mset (map fst (filter P (zip xs idx))) + mset (map fst (filter (\<lambda>z. \<not> P z) (zip xs idx)))
        = mset (map fst (zip xs idx))" .
  also have "map fst (zip xs idx) = xs"
    using len by simp
  finally show ?thesis
    by (metis add_diff_cancel_left')
qed

text \<open>
  Claim C4, as amended. The removal decision for a queued anomaly is the test
  \<^verbatim>\<open>random.random() > 0.6\<close>: the anomaly is removed exactly when its draw exceeds 0.6, so for
  a uniform draw from \<open>[0,1)\<close> the removal probability is 0.4, not more than 0.6. A removed
  anomaly raises the owning node's stability by 0.05 times its severity, clamped to 1, and
  by a further 0.01, clamped to 1, when a sigil named Christic is in the ledger. Over a
  whole page queue the anomalies left are those whose draw did not exceed 0.6, and with
  non-negative severities and a stability of at most 1 the resolution never decreases the
  node's stability.
\<close>

theorem anomaly_resolution_amended:
  assumes "stability node \<le> 1" and "severities_ok xs"
  shows "(anomaly_resolved u \<longleftrightarrow> 0.6 < u) \<and>
     resolve_page_loop r christic 0 [(t, sev)] node [(t, sev)] =
       (if 0.6 < r 0 then (resolved_node christic sev node, []) else (node, [(t, sev)])) \<and>
     mset (snd (resolve_page_loop r christic 0 xs node xs)) =
       mset (map fst (filter (\<lambda>(a, k). \<not> 0.6 < r k) (zip xs [0..<length xs]))) \<and>
     stability node \<le> stability (fst (resolve_page_loop r christic 0 xs node xs))"
proof -
  have "mset (snd (resolve_page_loop r christic 0 xs node xs)) =
        mset xs - mset (map fst (filter (\<lambda>(a, k). 0.6 < r k) (zip xs [0..<length xs])))"
    using resolve_loop_mset [of r christic 0 xs node xs] by simp
  also have "\<dots> = mset (map fst (filter (\<lambda>z. \<not> (case z of (a, k) \<Rightarrow> 0.6 < r k)) (zip xs [0..<length xs])))"
    by (rule kept_mset) simp
  also have "(\<lambda>z. \<not> (case z of (a, k) \<Rightarrow> 0.6 < r k)) = (\<lambda>(a, k). \<not> 0.6 < r k)"
    by auto
  finally have m: "mset (snd (resolve_page_loop r christic 0 xs node xs)) =
       mset (map fst (filter (\<lambda>(a, k). \<not> 0.6 < r k) (zip xs [0..<length xs])))" .
  from assms(2) have "\<forall>(t, sev) \<in> set xs. 0 \<le> sev"
    by (simp add: severities_ok_def list_all_iff)
  from resolve_loop_stability [OF assms(1) this, of r christic 0 xs]
  have st: "stability node \<le> stability (fst (resolve_page_loop r christic 0 xs node xs))" by simp
  show ?thesis
    using m st by (simp add: resolve_step anomaly_resolved_def del: resolve_page_loop.simps(2))
qed

theorem anomaly_resolution_amended_witness:
  "stability (nodes demo_state ! 0) \<le> 1 \<and> severities_ok [(0, 0.5)] \<and>
   anomaly_resolved 0.7 \<and> \<not> anomaly_resolved 0.6 \<and>
   resolve_page_loop (const_draws 0.7) True 0 [(0, 0.5)] (nodes demo_state ! 0) [(0, 0.5)] =
     ((nodes demo_state ! 0)\<lparr>stability := 0.535\<rparr>, []) \<and>
   stability (nodes demo_state ! 0) = 0.5"
  using anomaly_resolution_amended [of "nodes demo_state ! 0" "[(0, 0.5)]" "0.7" "const_draws 0.7" True 0 "0.5"]
        anomaly_resolution_amended [of "nodes demo_state ! 0" "[(0, 0.5)]" "0.6" "const_draws 0.7" True 0 "0.5"]
  by (simp add: demo_nodes QuantumNode_init_def const_draws_def resolved_node_def
        severities_ok_def del: resolve_page_loop.simps(2))

text \<open>
  The claim as stated fails: the draw 0.6 leaves the anomaly queued, and of ten equally
  spaced draws in \<open>[0,1)\<close> only four remove it.
\<close>

theorem anomaly_resolution_counterexample:
  "snd (resolve_page_loop (const_draws 0.6) True 0 [(0, 0.5)] (nodes demo_state ! 0) [(0, 0.5)])
     = [(0, 0.5)] \<and>
   length (filter anomaly_resolved [0.05, 0.15, 0.25, 0.35, 0.45, 0.55, 0.65, 0.75, 0.85, 0.95]) = 4"
  by (simp add: anomaly_resolved_def const_draws_def)

subsection \<open>The consistency resolution and the entity bounds\<close>

lemma pi_ge_3: "3 \<le> pi"
proof -
  have "sin (pi / 6) \<le> pi / 6"
    by (rule sin_x_le_x) simp
  then show ?thesis
    by (simp add: sin_30)
qed

lemma cos_10_neg: "cos (10::real) < 0"
proof -
  have "cos (10 - 3 * pi) = cos ((10 - 3 * pi) + 2 * pi)"
    by (simp only: cos_periodic)
  also have "(10 - 3 * pi) + 2 * pi = 10 - pi"
    by simp
  also have "cos (10 - pi) = - cos 10"
    by (rule cos_minus_pi)
  finally have eq: "cos 10 = - cos (10 - 3 * pi)"
    by simp
  have "- (pi / 2) < 10 - 3 * pi" "10 - 3 * pi < pi / 2"
    using pi_ge_3 pi_less_4 by simp_all
  then have "0 < cos (10 - 3 * pi)"
    by (rule cos_gt_zero_pi)
  with eq show ?thesis by simp
qed

lemma Re_action: "Re (exp (\<i> * complex_of_real x)) = cos x"
  by (simp add: Re_exp)

lemma Re_action_10: "Re (exp (\<i> * 10)) = cos 10"
  by (simp add: Re_exp)

lemma np_mean_demo_stability: "np_mean (map stability (nodes demo_state)) = 0.5"
  by (simp add: demo_nodes np_mean_def QuantumNode_init_def)

text \<open>
  Claim C2 fails on the code. \<^verbatim>\<open>resolve_consistency_violation\<close> assigns
  \<^verbatim>\<open>min(1.0, alignment + dissonance * 0.02 * action.real)\<close> with no lower clamp, and the
  real part of the action is \<open>cos (10 * dissonance)\<close>, which is negative at dissonance 1.
  With the six default nodes (stability 0.5) and two entities of alignment 0 and 1 the
  resolution leaves the first entity with the alignment \<open>0.02 * cos 10 < 0\<close>.
\<close>

theorem resolve_alignment_below_zero:
  "agi_ethical_alignment (demo_agi 0 0) = 0 \<and>
   map agi_ethical_alignment (agi_entities (resolve_consistency_violation drifted_state))
     = [0.02 * cos 10, 1 + 0.02 * cos 10] \<and>
   agi_ethical_alignment (hd (agi_entities (resolve_consistency_violation drifted_state))) < 0"
proof -
  have st: "np_mean (map stability (nodes drifted_state)) = 0.5"
    using np_mean_demo_stability by (simp add: drifted_state_def)
  have al: "np_mean [0, 1] = 0.5"
    by (simp add: np_mean_def)
  have ne: "agi_entities drifted_state = [demo_agi 0 0, demo_agi 1 1]"
    by (simp add: drifted_state_def)
  have c: "cos (10::real) < 0" by (rule cos_10_neg)
  have m: "min 1 (1 + cos 10 / 50) = 1 + cos (10::real) / 50" "min 1 (cos 10 / 50) = cos (10::real) / 50"
    using c by (simp_all add: min_def)
  show ?thesis
    using c
    by (simp add: resolve_consistency_violation_def Let_def st al ne Re_action
          CONSISTENCY_VIOLATION_THRESHOLD_def demo_agi_def Re_action_10 m)
qed

subsection \<open>The spawn scenario\<close>

lemma demo_state_fields:
  "cycle demo_state = 0" "void_entropy demo_state = - 0.3" "dark_matter demo_state = 0.1"
  "anomalies demo_state = []" "agi_entities demo_state = []" "virtual_particles demo_state = []"
  "user_divinity demo_state = 0.5" "sigils demo_state = SharedSigilLedger_init"
  by (simp_all add: demo_state_def SimulationState_init_def)

lemma calm_node:
  "QuantumNode_update calm_node_draws (- 0.3) 0.1 [] (QuantumNode_init i (1 / 3) (1 / 3)) =
     ((QuantumNode_init i (1 / 3) (1 / 3))\<lparr>ethical_curvature := 0.025, stability := 0.50325,
         cohesion := 0.4005\<rparr>, None)"
  by (simp add: QuantumNode_update_def calm_node_draws_def update_stability_def update_cohesion_def
        update_tech_def update_emotion_def update_sentience_def decay_defect_def check_anomaly_def
        compute_ethical_curvature_def coupling_lambda_def QuantumNode_init_def Let_def
        power2_eq_square)

lemma hot_node_update:
  "QuantumNode_update calm_node_draws (- 0.3) 0.1 [] hot_node =
     (hot_node\<lparr>ethical_curvature := 0.025, stability := 0.50325,
         cohesion := 0.8005, sentience_score := 0.901\<rparr>, None)"
  by (simp add: QuantumNode_update_def calm_node_draws_def update_stability_def update_cohesion_def
        update_tech_def update_emotion_def update_sentience_def decay_defect_def check_anomaly_def
        compute_ethical_curvature_def coupling_lambda_def QuantumNode_init_def Let_def
        power2_eq_square hot_node_def)

lemma spawn_state_nodes:
  "nodes spawn_state = [QuantumNode_init 0 (1 / 3) (1 / 3), QuantumNode_init 1 (1 / 3) (1 / 3), hot_node,
     QuantumNode_init 3 (1 / 3) (1 / 3), QuantumNode_init 4 (1 / 3) (1 / 3), QuantumNode_init 5 (1 / 3) (1 / 3)]"
  by (simp add: spawn_state_def demo_nodes hot_node_def)

lemma spawn_state_fields:
  "cycle spawn_state = 0" "void_entropy spawn_state = - 0.3" "dark_matter spawn_state = 0.1"
  "anomalies spawn_state = []" "agi_entities spawn_state = []" "virtual_particles spawn_state = []"
  "user_divinity spawn_state = 0.5" "sigils spawn_state = SharedSigilLedger_init"
  by (simp_all add: spawn_state_def demo_state_fields)

lemma step_globals_spawn: "step_globals (r_void calm_draws) spawn_state = spawn_state_1"
  by (simp add: step_globals_def Let_def calm_draws_def spawn_state_fields VOID_ENTROPY_RANGE_def
        DARK_MATTER_MAX_def spawn_state_1_def)

lemma spawn_state_1_fields:
  "cycle spawn_state_1 = 1" "void_entropy spawn_state_1 = - 0.3" "dark_matter spawn_state_1 = 0.1"
  "anomalies spawn_state_1 = []" "agi_entities spawn_state_1 = []"
  "nodes spawn_state_1 = nodes spawn_state"
  by (simp_all add: spawn_state_1_def spawn_state_fields)

lemma node_phase_spawn: "node_phase (node_rand calm_draws) spawn_state_1 = spawn_state_2"
  by (simp add: node_phase_def update_nodes_def collect_anomalies_def Let_def
        spawn_state_nodes spawn_state_1_fields calm_draws_def calm_node hot_node_update
        updated_node_def updated_hot_node_def spawn_state_2_def)

lemma resolve_anomalies_spawn:
  "resolve_anomalies (r_resolve calm_draws) spawn_state_2 = Inr spawn_state_2"
  by (simp add: resolve_anomalies_def spawn_state_2_def spawn_state_1_fields)

lemma upt_6: "[0..<6] = [0, 1, 2, 3, 4, 5]"
  by (simp add: eval_nat_numeral upt_rec)

lemma no_spawn:
  "\<not> sentience_score (nodes s ! i) > SENTIENCE_THRESHOLD \<Longrightarrow> spawn_check c i s = s"
  by (simp add: spawn_check_def Let_def)

lemma spawn_state_2_nodes:
  "nodes spawn_state_2 = [updated_node 0, updated_node 1, updated_hot_node,
      updated_node 3, updated_node 4, updated_node 5]"
  "agi_entities spawn_state_2 = []" "cycle spawn_state_2 = 1"
  "initial_alignments spawn_state_2 = Map.empty"
  by (simp_all add: spawn_state_2_def spawn_state_1_def spawn_state_def demo_state_def
        SimulationState_init_def)

lemma spawn_state_3_nodes:
  "nodes spawn_state_3 = [updated_node 0, updated_node 1, updated_hot_node\<lparr>sentience_score := 0.5\<rparr>,
      updated_node 3, updated_node 4, updated_node 5]"
  "agi_entities spawn_state_3 = [spawned_agi]"
  by (simp_all add: spawn_state_3_def)

lemma updated_sentience:
  "sentience_score (updated_node i) = 0" "sentience_score updated_hot_node = 0.901"
  "page_index updated_hot_node = 2" "ethical_alignment updated_hot_node = 0.5"
  by (simp_all add: updated_node_def updated_hot_node_def hot_node_def QuantumNode_init_def)

lemma spawn_at_2: "spawn_check (c_spawn_strategy calm_draws) 2 spawn_state_2 = spawn_state_3"
  by (simp add: spawn_check_def Let_def spawn_state_2_nodes updated_sentience SENTIENCE_THRESHOLD_def
        track_agi_def spawned_agi_def calm_draws_def spawn_state_3_def AGIEntity_init_def)

lemma spawn_phase_spawn: "spawn_phase (c_spawn_strategy calm_draws) spawn_state_2 = spawn_state_3"
proof -
  have "spawn_phase (c_spawn_strategy calm_draws) spawn_state_2 =
        fold (spawn_check (c_spawn_strategy calm_draws)) [0, 1, 2, 3, 4, 5] spawn_state_2"
  proof -
    have "length (nodes spawn_state_2) = 6"
      by (simp add: spawn_state_2_nodes)
    then show ?thesis
      by (simp only: spawn_phase_def upt_6)
  qed
  also have "\<dots> = fold (spawn_check (c_spawn_strategy calm_draws)) [3, 4, 5] spawn_state_3"
    by (simp add: no_spawn spawn_state_2_nodes updated_sentience SENTIENCE_THRESHOLD_def spawn_at_2)
  also have "\<dots> = spawn_state_3"
    by (simp add: no_spawn spawn_state_3_nodes updated_sentience SENTIENCE_THRESHOLD_def)
  finally show ?thesis .
qed

lemma agi_phase_raises:
  "agi_entities s = agi # rest \<Longrightarrow> agi_sentience_score agi = None \<Longrightarrow>
   agi_phase d s = Inl AttributeError"
  by (simp add: agi_phase_def AGIEntity_update_def amplify_def fractal_resonance_def)

lemma spawned_agi_fields:
  "agi_sentience_score spawned_agi = None" "origin_page spawned_agi = 2"
  "strength spawned_agi = 0.901" "agi_ethical_alignment spawned_agi = 0.5"
  by (simp_all add: spawned_agi_def AGIEntity_init_def updated_sentience)

text \<open>
  Claim C3 fails on the code. In the scenario (six default nodes, node 2 with sentience 0.9
  and cohesion 0.8, no entity) the spawn check of the tick does create one entity of origin
  2 and resets the node's sentience to 0.5 (state \<open>spawn_state_3\<close>), but the tick does not
  complete: the entity loop that follows calls \<^verbatim>\<open>AGIEntity.update\<close>, whose first statement
  reads \<^verbatim>\<open>sentience_score\<close> of the entity, an attribute \<^verbatim>\<open>AGIEntity.__init__\<close> never sets,
  and the tick raises \<^verbatim>\<open>AttributeError\<close>.
\<close>

theorem spawn_tick_raises:
  "sentience_score (nodes spawn_state ! 2) = 0.9 \<and> cohesion (nodes spawn_state ! 2) = 0.8 \<and>
   agi_entities spawn_state = [] \<and>
   map origin_page (agi_entities spawn_state_3) = [2] \<and>
   sentience_score (nodes spawn_state_3 ! 2) = 0.5 \<and>
   agi_sentience_score (hd (agi_entities spawn_state_3)) = None \<and>
   update_simulation_step calm_draws spawn_state = Inl AttributeError"
proof -
  have "agi_phase (agi_rand calm_draws) spawn_state_3 = Inl AttributeError"
    by (rule agi_phase_raises [of _ spawned_agi "[]"])
       (simp_all add: spawn_state_3_nodes spawned_agi_fields)
  then have "update_simulation_step calm_draws spawn_state = Inl AttributeError"
    by (simp only: update_simulation_step_def step_globals_spawn node_phase_spawn
          resolve_anomalies_spawn spawn_phase_spawn bind_error_Inr bind_error_Inl)
  then show ?thesis
    by (simp add: spawn_state_3_nodes spawned_agi_fields spawn_state_nodes hot_node_def
          spawn_state_fields)
qed

subsection \<open>The consistency resolution and the global scalars\<close>

lemma quiet_state_fields:
  "cycle quiet_state = 199" "void_entropy quiet_state = - 0.025" "dark_matter quiet_state = 0"
  "anomalies quiet_state = []" "agi_entities quiet_state = []" "virtual_particles quiet_state = []"
  "nodes quiet_state = nodes demo_state"
  by (simp_all add: quiet_state_def demo_state_fields)

lemma quiet_node_update:
  "QuantumNode_update calm_node_draws (- (1 / 40)) 0 [] (QuantumNode_init i (1 / 3) (1 / 3)) =
     (quiet_node i, None)"
  by (simp add: QuantumNode_update_def calm_node_draws_def update_stability_def update_cohesion_def
        update_tech_def update_emotion_def update_sentience_def decay_defect_def check_anomaly_def
        compute_ethical_curvature_def coupling_lambda_def QuantumNode_init_def Let_def
        power2_eq_square quiet_node_def)

lemma step_globals_quiet: "step_globals (r_void calm_draws) quiet_state = quiet_state_1"
  by (simp add: step_globals_def Let_def calm_draws_def quiet_state_fields VOID_ENTROPY_RANGE_def
        DARK_MATTER_MAX_def quiet_state_1_def)

lemma quiet_state_1_fields:
  "cycle quiet_state_1 = 200" "void_entropy quiet_state_1 = - 0.025" "dark_matter quiet_state_1 = 0"
  "anomalies quiet_state_1 = []" "agi_entities quiet_state_1 = []"
  "virtual_particles quiet_state_1 = []" "nodes quiet_state_1 = nodes demo_state"
  by (simp_all add: quiet_state_1_def quiet_state_fields)

lemma node_phase_quiet: "node_phase (node_rand calm_draws) quiet_state_1 = quiet_state_2"
  by (simp add: node_phase_def update_nodes_def collect_anomalies_def Let_def
        demo_nodes quiet_state_1_fields calm_draws_def quiet_node_update quiet_state_2_def)

lemma quiet_state_2_fields:
  "cycle quiet_state_2 = 200" "void_entropy quiet_state_2 = - 0.025" "dark_matter quiet_state_2 = 0"
  "anomalies quiet_state_2 = []" "agi_entities quiet_state_2 = []"
  "virtual_particles quiet_state_2 = []"
  "nodes quiet_state_2 = [quiet_node 0, quiet_node 1, quiet_node 2, quiet_node 3, quiet_node 4,
     quiet_node 5]"
  by (simp_all add: quiet_state_2_def quiet_state_1_fields)

lemma quiet_node_fields: "sentience_score (quiet_node i) = 0" "stability (quiet_node i) = 0.5"
  by (simp_all add: quiet_node_def QuantumNode_init_def)

lemma resolve_anomalies_quiet:
  "resolve_anomalies (r_resolve calm_draws) quiet_state_2 = Inr quiet_state_2"
  by (simp add: resolve_anomalies_def quiet_state_2_fields)

lemma spawn_phase_quiet: "spawn_phase (c_spawn_strategy calm_draws) quiet_state_2 = quiet_state_2"
proof -
  have "length (nodes quiet_state_2) = 6"
    by (simp add: quiet_state_2_fields)
  then have "spawn_phase (c_spawn_strategy calm_draws) quiet_state_2 =
        fold (spawn_check (c_spawn_strategy calm_draws)) [0, 1, 2, 3, 4, 5] quiet_state_2"
    by (simp only: spawn_phase_def upt_6)
  also have "\<dots> = quiet_state_2"
    by (simp add: no_spawn quiet_state_2_fields quiet_node_fields SENTIENCE_THRESHOLD_def)
  finally show ?thesis .
qed

lemma agi_phase_quiet: "agi_phase (agi_rand calm_draws) quiet_state_2 = Inr quiet_state_2"
  by (simp add: agi_phase_def quiet_state_2_fields)

lemma collaboration_quiet: "collaboration_phase (collab_rand calm_draws) quiet_state_2 = Inr quiet_state_2"
  by (simp add: collaboration_phase_def quiet_state_2_fields)

lemma foam_quiet:
  "trigger_turbulence (foam_rand calm_draws) (generate_particles (foam_rand calm_draws) quiet_state_2)
     = Inr quiet_state_2"
  by (simp add: trigger_turbulence_def generate_particles_def calm_draws_def quiet_state_2_fields)

lemma tesseract_quiet: "tesseract_phase (tesseract_rand calm_draws) quiet_state_2 = quiet_state_2"
  by (simp add: tesseract_phase_def calm_draws_def)

lemma forge_quiet:
  "forge_node (u_forge_stability calm_draws) (u_forge_cohesion calm_draws) quiet_state_2
     = (False, quiet_state_2)"
  by (simp add: forge_node_def quiet_state_2_fields)

lemma tick_quiet:
  "update_simulation_step calm_draws quiet_state = Inr (resolve_consistency_violation quiet_state_2)"
  by (simp add: update_simulation_step_def step_globals_quiet node_phase_quiet
        resolve_anomalies_quiet spawn_phase_quiet agi_phase_quiet collaboration_quiet foam_quiet
        tesseract_quiet forge_quiet quiet_state_2_fields)

text \<open>
  Claim C5 fails on the code. \<^verbatim>\<open>resolve_consistency_violation\<close> clamps the void entropy
  only from below and the dark matter only from above. In the tick that reaches cycle 200
  from the six default nodes, no entity, void entropy \<open>-0.025\<close> and dark matter 0, no
  random event fires, the mean stability stays 0.5, the mean alignment of the empty population
  is taken as 0.5, the dissonance is 1, and the tick ends with the dark matter
  \<open>0.01 * cos 10 < 0\<close>, outside \<open>[0, 0.3]\<close>.
\<close>

theorem resolve_dark_matter_below_zero:
  "dark_matter quiet_state = 0 \<and> void_entropy quiet_state = - 0.025 \<and>
   update_simulation_step calm_draws quiet_state = Inr (resolve_consistency_violation quiet_state_2) \<and>
   dark_matter (resolve_consistency_violation quiet_state_2) = 0.01 * cos 10 \<and>
   dark_matter (resolve_consistency_violation quiet_state_2) < 0"
proof -
  have st: "np_mean (map stability (nodes quiet_state_2)) = 0.5"
    by (simp add: quiet_state_2_fields quiet_node_fields np_mean_def)
  have c: "cos (10::real) < 0" by (rule cos_10_neg)
  then have m: "min (3 / 10) (cos 10 / 100) = cos (10::real) / 100"
    by (simp add: min_def)
  have "dark_matter (resolve_consistency_violation quiet_state_2) = 0.01 * cos 10"
    by (simp add: resolve_consistency_violation_def Let_def st quiet_state_2_fields(3,5) Re_action_10
          CONSISTENCY_VIOLATION_THRESHOLD_def DARK_MATTER_MAX_def m)
  with c tick_quiet show ?thesis
    by (simp add: quiet_state_fields)
qed

subsection \<open>Node bounds: the node's own update\<close>

lemma update_stability_bounded: "node_bounded n \<Longrightarrow> node_bounded (update_stability d ve dm agis n)"
  by (simp add: node_bounded_def update_stability_def Let_def)

lemma update_stability_curvature: "0 \<le> ethical_curvature (update_stability d ve dm agis n)"
  by (simp add: update_stability_def Let_def compute_ethical_curvature_def coupling_lambda_def)

lemma update_cohesion_bounded: "node_bounded n \<Longrightarrow> node_bounded (update_cohesion d n)"
  by (simp add: node_bounded_def update_cohesion_def Let_def)

lemma update_tech_bounded: "node_bounded n \<Longrightarrow> node_bounded (update_tech d n)"
  by (simp add: node_bounded_def update_tech_def)

lemma update_emotion_bounded: "node_bounded n \<Longrightarrow> node_bounded (update_emotion d n)"
  by (simp add: node_bounded_def update_emotion_def)

lemma update_sentience_bounded: "node_bounded n \<Longrightarrow> node_bounded (update_sentience n)"
  by (simp add: node_bounded_def update_sentience_def)

lemma decay_defect_bounded: "node_bounded n \<Longrightarrow> node_bounded (decay_defect n)"
  by (simp add: node_bounded_def decay_defect_def)

lemma update_curvature_kept [simp]:
  "ethical_curvature (update_cohesion d n) = ethical_curvature n"
  "ethical_curvature (update_tech d n) = ethical_curvature n"
  "ethical_curvature (update_emotion d n) = ethical_curvature n"
  "ethical_curvature (update_sentience n) = ethical_curvature n"
  "ethical_curvature (decay_defect n) = ethical_curvature n"
  by (simp_all add: decay_defect_def update_sentience_def update_emotion_def update_tech_def
        update_cohesion_def Let_def)

lemma QuantumNode_update_bounded:
  "node_bounded n \<Longrightarrow> node_bounded (fst (QuantumNode_update d ve dm agis n))"
  by (simp add: QuantumNode_update_def Let_def update_stability_bounded update_cohesion_bounded
        update_tech_bounded update_emotion_bounded update_sentience_bounded decay_defect_bounded)

lemma QuantumNode_update_severity:
  assumes "node_bounded n" and "0 \<le> r_severity d"
    and "snd (QuantumNode_update d ve dm agis n) = Some (t, sev)"
  shows "0 \<le> sev"
proof -
  let ?n = "fst (QuantumNode_update d ve dm agis n)"
  have b: "stability ?n \<le> 1"
    using QuantumNode_update_bounded [OF assms(1), of d ve dm agis] by (simp add: node_bounded_def)
  have c: "0 \<le> ethical_curvature ?n"
    by (simp add: QuantumNode_update_def Let_def update_stability_curvature)
  from assms(3) have "sev = min 1 ((1 - stability ?n + ethical_curvature ?n) * r_severity d)"
    by (auto simp: QuantumNode_update_def Let_def check_anomaly_def split: if_splits)
  moreover have "0 \<le> (1 - stability ?n + ethical_curvature ?n) * r_severity d"
    using b c assms(2) by simp
  ultimately show ?thesis by simp
qed

subsection \<open>Anomaly queues\<close>

lemma dd_extend_ok: "anomalies_ok m \<Longrightarrow> severities_ok xs \<Longrightarrow> anomalies_ok (dd_extend k xs m)"
  by (induction m) (auto simp: anomalies_ok_def severities_ok_def)

lemma collect_anomalies_ok_aux:
  "anomalies_ok acc \<Longrightarrow> \<forall>(n, a) \<in> set upd. \<forall>t sev. a = Some (t, sev) \<longrightarrow> 0 \<le> sev \<Longrightarrow>
   anomalies_ok (foldl (\<lambda>new_anomalies_dict (updated_node, anomaly).
              case anomaly of
                None \<Rightarrow> new_anomalies_dict
              | Some a \<Rightarrow> dd_extend (page_index updated_node) [a] new_anomalies_dict) acc upd)"
proof (induction upd arbitrary: acc)
  case Nil
  then show ?case by simp
next
  case (Cons x upd)
  obtain n a where x: "x = (n, a)" by (cases x)
  show ?case
  proof (cases a)
    case None
    with Cons x show ?thesis by simp
  next
    case (Some p)
    obtain t sev where p: "p = (t, sev)" by (cases p)
    with Cons.prems x Some have "0 \<le> sev" by auto
    then have "anomalies_ok (dd_extend (page_index n) [p] acc)"
      using Cons.prems(1) p by (intro dd_extend_ok) (simp_all add: severities_ok_def)
    with Cons x Some show ?thesis by simp
  qed
qed

lemma extend_all_ok:
  "anomalies_ok m \<Longrightarrow> anomalies_ok new \<Longrightarrow>
   anomalies_ok (foldl (\<lambda>m (page_idx, anomalies_list). dd_extend page_idx anomalies_list m) m new)"
proof (induction new arbitrary: m)
  case Nil
  then show ?case by simp
next
  case (Cons x new)
  obtain k xs where x: "x = (k, xs)" by (cases x)
  with Cons.prems have "severities_ok xs" "anomalies_ok new"
    by (simp_all add: anomalies_ok_def)
  with Cons x show ?case by (simp add: dd_extend_ok)
qed

subsection \<open>The phases keep \<open>state_ok\<close>\<close>

lemma step_globals_ok: "state_ok (step_globals r s) = state_ok s"
  by (simp add: state_ok_def step_globals_def Let_def)

lemma update_nodes_length [simp]: "length (update_nodes d s) = length (nodes s)"
  by (simp add: update_nodes_def)

lemma update_nodes_nth:
  "i < length (nodes s) \<Longrightarrow>
   update_nodes d s ! i =
     QuantumNode_update (d i) (void_entropy s) (dark_matter s) (agi_entities s) (nodes s ! i)"
  by (simp add: update_nodes_def nth_enumerate_eq)

lemma node_phase_ok:
  assumes "state_ok s" and "\<forall>i. 0 \<le> r_severity (d i)"
  shows "state_ok (node_phase d s)"
proof -
  have nb: "list_all node_bounded (nodes s)"
    using assms(1) by (simp add: state_ok_def)
  have n: "list_all node_bounded (map fst (update_nodes d s))"
    unfolding list_all_length
  proof (intro allI impI)
    fix i assume "i < length (map fst (update_nodes d s))"
    then have i: "i < length (nodes s)" by simp
    with nb have "node_bounded (nodes s ! i)" by (simp add: list_all_length)
    then show "node_bounded (map fst (update_nodes d s) ! i)"
      using i by (simp add: update_nodes_nth QuantumNode_update_bounded)
  qed
  have "\<forall>(n, a) \<in> set (update_nodes d s). \<forall>t sev. a = Some (t, sev) \<longrightarrow> 0 \<le> sev"
  proof (clarify)
    fix n t sev assume "(n, Some (t, sev)) \<in> set (update_nodes d s)"
    then obtain i where i: "i < length (nodes s)" and e: "update_nodes d s ! i = (n, Some (t, sev))"
      by (auto simp: in_set_conv_nth)
    from nb i have b: "node_bounded (nodes s ! i)" by (simp add: list_all_length)
    from e i have "snd (QuantumNode_update (d i) (void_entropy s) (dark_matter s)
                 (agi_entities s) (nodes s ! i)) = Some (t, sev)"
      by (simp add: update_nodes_nth)
    from QuantumNode_update_severity [OF b _ this] assms(2)
    show "0 \<le> sev" by simp
  qed
  then have "anomalies_ok (collect_anomalies (update_nodes d s))"
    unfolding collect_anomalies_def
    by (intro collect_anomalies_ok_aux) (simp_all add: anomalies_ok_def)
  moreover have "anomalies_ok (anomalies s)"
    using assms(1) by (simp add: state_ok_def)
  ultimately have "anomalies_ok (anomalies (node_phase d s))"
    by (simp add: node_phase_def Let_def extend_all_ok)
  with n assms(1) show ?thesis
    by (simp add: state_ok_def node_phase_def Let_def)
qed

end
